theory Spec2Isabelle
  imports Main "HOL-Library.Word"
begin

unbundle bit_operations_syntax

section \<open>AMD Sensor Fusion Hub HID client (amd-sfh-client.c)\<close>

text \<open>
  The client creates one HID device per sensor that the hub advertises, keeps the
  devices in the array \<^verbatim>\<open>privdata->sensors\<close>, and destroys them again.
  The embedding follows amd-sfh-client.c function by function. The kernel services the
  file calls (the HID core, the device-managed allocator, \<^verbatim>\<open>strscpy\<close>, the
  log) are modelled by a small world: a heap of live objects and a chronological trace
  of what the kernel was asked to do.
\<close>

subsection \<open>Declarations of the headers\<close>

text \<open>
  Modelled from the spec: \<^verbatim>\<open>enum sensor_idx\<close> is declared in amd-sfh.h, which is
  not among the sources at hand. The spec's SensorKind is the enumeration
  {Accelerometer, Gyroscope, Magnetometer, AmbientLight}; the enumerators carry the names
  amd-sfh-client.c uses for them. A C object of enumeration type can hold any value of the
  underlying integer type, so \<open>OTHER_IDX v\<close> stands for a value \<open>v\<close> that is none of the
  four enumerators.
\<close>

datatype sensor_idx = ACCEL_IDX | GYRO_IDX | MAG_IDX | ALS_IDX | OTHER_IDX int

text \<open>
  Modelled from the spec: the report types of amd-sfh-hid-reports.h (not at hand). The
  client asks for the input report only.
\<close>

datatype report_type = AMD_SFH_INPUT_REPORT | AMD_SFH_OTHER_REPORT nat

text \<open>
  Modelled from the spec: \<^verbatim>\<open>AMD_SFH_MAX_SENSORS\<close> is defined in amd-sfh.h (not at
  hand). The spec's registry is a fixed-size array with one slot per known sensor kind.
\<close>

definition AMD_SFH_MAX_SENSORS :: nat where
  "AMD_SFH_MAX_SENSORS = 4"

text \<open>
  What the remaining headers fix is a parameter of the model: the four mask macros of
  amd-sfh-pci.h (a \<^verbatim>\<open>uint\<close> each), the sizes of the \<^verbatim>\<open>name\<close> and
  \<^verbatim>\<open>phys\<close> arrays of \<^verbatim>\<open>struct hid_device\<close> (128 and 64 bytes in
  linux/hid.h) and \<^verbatim>\<open>sizeof(struct amd_sfh_hid_data)\<close>.
\<close>

record headers =
  ACCEL_MASK :: "32 word"
  GYRO_MASK :: "32 word"
  MAGNO_MASK :: "32 word"
  ALS_MASK :: "32 word"
  name_size :: nat
  phys_size :: nat
  hid_data_size :: nat

definition AMD_SFH_HID_VENDOR :: "32 word" where
  "AMD_SFH_HID_VENDOR = 0x3fe"

definition AMD_SFH_HID_PRODUCT :: "32 word" where
  "AMD_SFH_HID_PRODUCT = 0x0001"

definition AMD_SFH_HID_VERSION :: "32 word" where
  "AMD_SFH_HID_VERSION = 0x0001"

definition AMD_SFH_PHY_DEV :: string where
  "AMD_SFH_PHY_DEV = ''AMD Sensor Fusion Hub (PCIe)''"

text \<open>Constants of linux/input.h, linux/hid.h and errno.h that the client uses.\<close>

definition BUS_I2C :: "16 word" where
  "BUS_I2C = 0x18"

definition HID_GROUP_SENSOR_HUB :: "16 word" where
  "HID_GROUP_SENSOR_HUB = 0x0003"

datatype hid_type = HID_TYPE_OTHER | HID_TYPE_USBMOUSE | HID_TYPE_USBNONE

datatype ll_driver_ref = NO_LL_DRIVER | AMD_SFH_HID_LL_DRIVER

definition ENOMEM :: int where
  "ENOMEM = 12"

definition E2BIG :: int where
  "E2BIG = 7"

definition INT_MAX :: nat where
  "INT_MAX = 2147483647"

subsection \<open>Pointers, objects and the kernel world\<close>

type_synonym addr = nat

text \<open>
  A pointer is \<^verbatim>\<open>NULL\<close>, an errno encoded by \<^verbatim>\<open>ERR_PTR\<close>, or the
  address of an object. Only \<open>NULL\<close> is false in a C condition.
\<close>

datatype ptr = NULL | ERR_PTR int | Ptr addr

definition IS_ERR :: "ptr \<Rightarrow> bool" where
  "IS_ERR p = (case p of ERR_PTR e \<Rightarrow> True | _ \<Rightarrow> False)"

text \<open>
  \<^verbatim>\<open>struct hid_device\<close>, with the fields the client writes. \<open>hid_added\<close> is
  the status bit \<^verbatim>\<open>HID_STAT_ADDED\<close>; \<open>hid_devres\<close> lists the device-managed
  allocations attached to \<^verbatim>\<open>hid->dev\<close>, the most recent first.
\<close>

record hid_device =
  hid_bus :: "16 word"
  hid_group :: "16 word"
  hid_vendor :: "32 word"
  hid_product :: "32 word"
  hid_version :: "32 word"
  hid_type :: hid_type
  hid_ll_driver :: ll_driver_ref
  hid_name :: string
  hid_phys :: string
  hid_driver_data :: ptr
  hid_added :: bool
  hid_devres :: "addr list"

text \<open>
  Modelled from the spec: \<^verbatim>\<open>struct amd_sfh_hid_data\<close> is declared in
  amd-sfh-hid-ll-drv.h (not at hand); these are the fields amd-sfh-client.c assigns. The
  spec has the buffer sized exactly to the descriptor size, so \<open>data_report_size\<close>
  holds the non-negative \<^verbatim>\<open>int\<close> without loss.
\<close>

record amd_sfh_hid_data =
  data_sensor_idx :: sensor_idx
  data_pci_dev :: addr
  data_hid :: ptr
  data_cpu_addr :: ptr
  data_report_size :: nat
  data_report_buf :: ptr

datatype obj =
    HID_DEVICE hid_device
  | HID_DATA amd_sfh_hid_data
  | BYTES "8 word list"

text \<open>
  The trace records, in order, every block of memory obtained and released, every
  registration and unregistration with the HID core, every call of
  \<^verbatim>\<open>hid_destroy_device\<close>, every diagnostic, and every use of a pointer that
  does not point to a live object of the expected type (\<open>FAULT\<close>).
\<close>

datatype event =
    PCI_ERR addr string
  | HID_WARN ptr string
  | HID_ERR ptr string "int list"
  | KALLOC addr
  | KFREE addr
  | HID_ADD addr
  | HID_DEL addr
  | HID_DESTROY ptr
  | FAULT ptr

record kernel =
  heap :: "(addr \<times> obj) list"
  trace :: "event list"

text \<open>
  The outcomes of everything outside amd-sfh-client.c: the sensor mask read from the
  hub (\<^verbatim>\<open>amd_sfh_get_sensor_mask\<close>, amd-sfh-pci.c), the descriptor sizes
  (\<^verbatim>\<open>get_descriptor_size\<close>, amd-sfh-hid-reports.c), and, for the probe of each
  sensor, whether the kernel's allocations succeed and what \<^verbatim>\<open>hid_add_device\<close>
  returns.
\<close>

record environment =
  amd_sfh_get_sensor_mask :: "addr \<Rightarrow> 32 word"
  get_descriptor_size :: "sensor_idx \<Rightarrow> report_type \<Rightarrow> int"
  hid_allocate_device_ok :: "sensor_idx \<Rightarrow> bool"
  hid_data_kzalloc_ok :: "sensor_idx \<Rightarrow> bool"
  report_buf_kzalloc_ok :: "sensor_idx \<Rightarrow> bool"
  hid_add_device_rc :: "sensor_idx \<Rightarrow> int"

subsection \<open>Kernel services\<close>

text \<open>The allocator hands out the address above every live one.\<close>

fun top_addr :: "(addr \<times> obj) list \<Rightarrow> addr" where
  "top_addr [] = 0"
| "top_addr ((a, x) # h) = max a (top_addr h)"

definition kalloc :: "obj \<Rightarrow> kernel \<Rightarrow> addr \<times> kernel" where
  "kalloc x w =
     (let a = Suc (top_addr (heap w))
      in (a, w\<lparr>heap := (a, x) # heap w, trace := trace w @ [KALLOC a]\<rparr>))"

text \<open>Overwriting the object at an address, and removing the objects at some addresses.\<close>

fun heap_store :: "addr \<Rightarrow> obj \<Rightarrow> (addr \<times> obj) list \<Rightarrow> (addr \<times> obj) list" where
  "heap_store a x [] = []"
| "heap_store a x ((b, y) # h) = (if b = a then (b, x) else (b, y)) # heap_store a x h"

fun heap_release :: "addr list \<Rightarrow> (addr \<times> obj) list \<Rightarrow> (addr \<times> obj) list" where
  "heap_release as [] = []"
| "heap_release as ((b, y) # h) =
     (if b \<in> set as then heap_release as h else (b, y) # heap_release as h)"

definition store :: "addr \<Rightarrow> obj \<Rightarrow> kernel \<Rightarrow> kernel" where
  "store a x w = w\<lparr>heap := heap_store a x (heap w)\<rparr>"

definition fault :: "ptr \<Rightarrow> kernel \<Rightarrow> kernel" where
  "fault p w = w\<lparr>trace := trace w @ [FAULT p]\<rparr>"

definition deref_hid :: "kernel \<Rightarrow> ptr \<Rightarrow> hid_device option" where
  "deref_hid w p =
     (case p of
        Ptr a \<Rightarrow> (case map_of (heap w) a of Some (HID_DEVICE d) \<Rightarrow> Some d | _ \<Rightarrow> None)
      | _ \<Rightarrow> None)"

definition deref_data :: "kernel \<Rightarrow> ptr \<Rightarrow> amd_sfh_hid_data option" where
  "deref_data w p =
     (case p of
        Ptr a \<Rightarrow> (case map_of (heap w) a of Some (HID_DATA x) \<Rightarrow> Some x | _ \<Rightarrow> None)
      | _ \<Rightarrow> None)"

definition deref_bytes :: "kernel \<Rightarrow> ptr \<Rightarrow> 8 word list option" where
  "deref_bytes w p =
     (case p of
        Ptr a \<Rightarrow> (case map_of (heap w) a of Some (BYTES bs) \<Rightarrow> Some bs | _ \<Rightarrow> None)
      | _ \<Rightarrow> None)"

text \<open>An assignment through \<^verbatim>\<open>hid->\<close>.\<close>

definition hid_write :: "ptr \<Rightarrow> (hid_device \<Rightarrow> hid_device) \<Rightarrow> kernel \<Rightarrow> kernel" where
  "hid_write p f w =
     (case p of
        Ptr a \<Rightarrow> (case deref_hid w p of Some d \<Rightarrow> store a (HID_DEVICE (f d)) w | None \<Rightarrow> fault p w)
      | _ \<Rightarrow> fault p w)"

text \<open>An assignment through \<^verbatim>\<open>hid_data->\<close>.\<close>

definition data_write :: "ptr \<Rightarrow> (amd_sfh_hid_data \<Rightarrow> amd_sfh_hid_data) \<Rightarrow> kernel \<Rightarrow> kernel" where
  "data_write p f w =
     (case p of
        Ptr a \<Rightarrow> (case deref_data w p of Some x \<Rightarrow> store a (HID_DATA (f x)) w | None \<Rightarrow> fault p w)
      | _ \<Rightarrow> fault p w)"

text \<open>
  \<^verbatim>\<open>hid_allocate_device\<close>: a zeroed device, or \<^verbatim>\<open>ERR_PTR(-ENOMEM)\<close>.
\<close>

definition zero_hid_device :: hid_device where
  "zero_hid_device =
     \<lparr>hid_bus = 0, hid_group = 0, hid_vendor = 0, hid_product = 0, hid_version = 0,
      hid_type = HID_TYPE_OTHER, hid_ll_driver = NO_LL_DRIVER, hid_name = [], hid_phys = [],
      hid_driver_data = NULL, hid_added = False, hid_devres = []\<rparr>"

definition hid_allocate_device :: "bool \<Rightarrow> kernel \<Rightarrow> ptr \<times> kernel" where
  "hid_allocate_device ok w =
     (if ok then (let (a, w') = kalloc (HID_DEVICE zero_hid_device) w in (Ptr a, w'))
      else (ERR_PTR (- ENOMEM), w))"

text \<open>
  \<^verbatim>\<open>devm_kzalloc(&hid->dev, sz, GFP_KERNEL)\<close>: \<open>sz\<close> zero bytes owned by
  the device, or \<^verbatim>\<open>NULL\<close>.
\<close>

definition devm_kzalloc :: "ptr \<Rightarrow> nat \<Rightarrow> bool \<Rightarrow> kernel \<Rightarrow> ptr \<times> kernel" where
  "devm_kzalloc dev sz ok w =
     (if \<not> ok then (NULL, w)
      else
        (case deref_hid w dev of
           None \<Rightarrow> (NULL, fault dev w)
         | Some d \<Rightarrow>
             (let (a, w') = kalloc (BYTES (replicate sz 0)) w
              in (Ptr a, hid_write dev (\<lambda>d. d\<lparr>hid_devres := a # hid_devres d\<rparr>) w'))))"

text \<open>
  \<^verbatim>\<open>hid_add_device\<close>: registers the device and returns 0, or returns the error
  and registers nothing.
\<close>

definition hid_add_device :: "ptr \<Rightarrow> int \<Rightarrow> kernel \<Rightarrow> int \<times> kernel" where
  "hid_add_device hid rc w =
     (if rc = 0 then
        (case hid of
           Ptr a \<Rightarrow>
             (case deref_hid w hid of
                Some d \<Rightarrow>
                  (rc, (hid_write hid (\<lambda>d. d\<lparr>hid_added := True\<rparr>) w)
                         \<lparr>trace := trace w @ [HID_ADD a]\<rparr>)
              | None \<Rightarrow> (rc, fault hid w))
         | _ \<Rightarrow> (rc, fault hid w))
      else (rc, w))"

text \<open>
  \<^verbatim>\<open>hid_destroy_device\<close>: unregisters the device if it was added, then drops it,
  which releases its managed allocations and the device itself.
\<close>

definition hid_destroy_device :: "ptr \<Rightarrow> kernel \<Rightarrow> kernel" where
  "hid_destroy_device hid w =
     (case hid of
        Ptr a \<Rightarrow>
          (case deref_hid w hid of
             Some d \<Rightarrow>
               (let released = hid_devres d @ [a]
                in w\<lparr>heap := heap_release released (heap w),
                     trace := trace w @ [HID_DESTROY hid]
                                @ (if hid_added d then [HID_DEL a] else [])
                                @ map KFREE released\<rparr>)
           | None \<Rightarrow> w\<lparr>trace := trace w @ [HID_DESTROY hid, FAULT hid]\<rparr>)
      | _ \<Rightarrow> w\<lparr>trace := trace w @ [HID_DESTROY hid, FAULT hid]\<rparr>)"

text \<open>
  \<^verbatim>\<open>strscpy(dest, src, count)\<close>: copies \<open>src\<close> if it fits with its terminator
  and returns its length; otherwise copies the first \<open>count - 1\<close> characters and returns
  \<^verbatim>\<open>-E2BIG\<close>. Nothing is copied for a count of 0 or above \<^verbatim>\<open>INT_MAX\<close>.
\<close>

definition strscpy :: "string \<Rightarrow> string \<Rightarrow> nat \<Rightarrow> string \<times> int" where
  "strscpy dest src count =
     (if count = 0 \<or> INT_MAX < count then (dest, - E2BIG)
      else if length src < count then (src, int (length src))
      else (take (count - 1) src, - E2BIG))"

text \<open>The conversion of an \<^verbatim>\<open>int\<close> to \<^verbatim>\<open>size_t\<close> (64 bits).\<close>

definition to_size_t :: "int \<Rightarrow> int" where
  "to_size_t i = i mod 2 ^ 64"

definition pci_err :: "addr \<Rightarrow> string \<Rightarrow> kernel \<Rightarrow> kernel" where
  "pci_err dev msg w = w\<lparr>trace := trace w @ [PCI_ERR dev msg]\<rparr>"

definition hid_warn :: "ptr \<Rightarrow> string \<Rightarrow> kernel \<Rightarrow> kernel" where
  "hid_warn hid msg w = w\<lparr>trace := trace w @ [HID_WARN hid msg]\<rparr>"

definition hid_err :: "ptr \<Rightarrow> string \<Rightarrow> int list \<Rightarrow> kernel \<Rightarrow> kernel" where
  "hid_err hid msg args w = w\<lparr>trace := trace w @ [HID_ERR hid msg args]\<rparr>"

subsection \<open>amd-sfh-client.c\<close>

fun amd_sfh_get_sensor_name :: "sensor_idx \<Rightarrow> string" where
  "amd_sfh_get_sensor_name ACCEL_IDX = ''accelerometer''"
| "amd_sfh_get_sensor_name GYRO_IDX = ''gyroscope''"
| "amd_sfh_get_sensor_name MAG_IDX = ''magnetometer''"
| "amd_sfh_get_sensor_name ALS_IDX = ''ambient light sensor''"
| "amd_sfh_get_sensor_name (OTHER_IDX v) = ''unknown sensor type''"

text \<open>
  \<^verbatim>\<open>strscpy(hid->name, src, count)\<close> and \<^verbatim>\<open>strscpy(hid->phys, src, count)\<close>:
  the copy lands in the device, the return value in \<^verbatim>\<open>rc\<close>.
\<close>

definition strscpy_hid_name :: "ptr \<Rightarrow> string \<Rightarrow> nat \<Rightarrow> kernel \<Rightarrow> int \<times> kernel" where
  "strscpy_hid_name hid src count w =
     (case deref_hid w hid of
        Some d \<Rightarrow>
          (snd (strscpy (hid_name d) src count),
           hid_write hid (\<lambda>d. d\<lparr>hid_name := fst (strscpy (hid_name d) src count)\<rparr>) w)
      | None \<Rightarrow> (- E2BIG, fault hid w))"

definition strscpy_hid_phys :: "ptr \<Rightarrow> string \<Rightarrow> nat \<Rightarrow> kernel \<Rightarrow> int \<times> kernel" where
  "strscpy_hid_phys hid src count w =
     (case deref_hid w hid of
        Some d \<Rightarrow>
          (snd (strscpy (hid_phys d) src count),
           hid_write hid (\<lambda>d. d\<lparr>hid_phys := fst (strscpy (hid_phys d) src count)\<rparr>) w)
      | None \<Rightarrow> (- E2BIG, fault hid w))"

text \<open>The two exit labels of \<^verbatim>\<open>amd_sfh_hid_probe\<close>.\<close>

definition err_hid_alloc :: "kernel \<Rightarrow> ptr \<times> kernel" where
  "err_hid_alloc w = (NULL, w)"

definition destroy_hid_device :: "ptr \<Rightarrow> kernel \<Rightarrow> ptr \<times> kernel" where
  "destroy_hid_device hid w = err_hid_alloc (hid_destroy_device hid w)"

text \<open>
  \<^verbatim>\<open>amd_sfh_hid_probe\<close>, statement by statement; \<open>w0\<close> to \<open>w13\<close> are the
  worlds in between. The seven assignments of the identity fields are one
  \<open>hid_write\<close>. \<^verbatim>\<open>rc >= sizeof(hid->name)\<close> compares an \<^verbatim>\<open>int\<close> with
  a \<^verbatim>\<open>size_t\<close>, so \<open>rc\<close> is converted first. The four assignments through
  \<^verbatim>\<open>hid_data->\<close> turn the zeroed block into the structure, its other fields still
  zero. The environment tells, for the sensor at hand, how each call into the kernel and
  into amd-sfh-hid-reports.c ends.
\<close>

definition amd_sfh_hid_probe ::
  "headers \<Rightarrow> environment \<Rightarrow> addr \<Rightarrow> sensor_idx \<Rightarrow> kernel \<Rightarrow> ptr \<times> kernel" where
  "amd_sfh_hid_probe H E pci_dev sensor w0 =
     (let (hid, w1) = hid_allocate_device (hid_allocate_device_ok E sensor) w0
      in if IS_ERR hid then
           err_hid_alloc (pci_err pci_dev (''Failed to allocate HID device!'' @ [CHR 0x0A]) w1)
         else
           let w2 = hid_write hid (\<lambda>d. d\<lparr>hid_bus := BUS_I2C,
                                         hid_group := HID_GROUP_SENSOR_HUB,
                                         hid_vendor := AMD_SFH_HID_VENDOR,
                                         hid_product := AMD_SFH_HID_PRODUCT,
                                         hid_version := AMD_SFH_HID_VERSION,
                                         hid_type := HID_TYPE_OTHER,
                                         hid_ll_driver := AMD_SFH_HID_LL_DRIVER\<rparr>) w1;
               name = amd_sfh_get_sensor_name sensor;
               (rc, w3) = strscpy_hid_name hid name (name_size H) w2;
               w4 = (if int (name_size H) \<le> to_size_t rc
                     then hid_warn hid (''Could not set HID device name.'' @ [CHR 0x0A]) w3
                     else w3);
               (rc, w5) = strscpy_hid_phys hid AMD_SFH_PHY_DEV (phys_size H) w4;
               w6 = (if int (phys_size H) \<le> to_size_t rc
                     then hid_warn hid (''Could not set HID device location.'' @ [CHR 0x0A]) w5
                     else w5);
               (hid_data, w7) =
                  devm_kzalloc hid (hid_data_size H) (hid_data_kzalloc_ok E sensor) w6
           in if hid_data = NULL then destroy_hid_device hid w7
              else
                let w8 = (case hid_data of
                            Ptr b \<Rightarrow>
                              store b (HID_DATA \<lparr>data_sensor_idx = sensor,
                                                 data_pci_dev = pci_dev,
                                                 data_hid = hid,
                                                 data_cpu_addr = NULL,
                                                 data_report_size = 0,
                                                 data_report_buf = NULL\<rparr>) w7
                          | _ \<Rightarrow> fault hid_data w7);
                    rc = get_descriptor_size E sensor AMD_SFH_INPUT_REPORT
                in if rc < 0 then
                     destroy_hid_device hid
                       (hid_err hid (''Failed to get input descriptor size!'' @ [CHR 0x0A]) [] w8)
                   else
                     let w9 = data_write hid_data (\<lambda>x. x\<lparr>data_report_size := nat rc\<rparr>) w8;
                         (buf, w10) =
                            devm_kzalloc hid (nat rc) (report_buf_kzalloc_ok E sensor) w9;
                         w11 = data_write hid_data (\<lambda>x. x\<lparr>data_report_buf := buf\<rparr>) w10
                     in if buf = NULL then
                          destroy_hid_device hid
                            (hid_err hid
                               (''Failed to allocate memory for report buffer!'' @ [CHR 0x0A])
                               [] w11)
                        else
                          let w12 = hid_write hid (\<lambda>d. d\<lparr>hid_driver_data := hid_data\<rparr>) w11;
                              (rc, w13) = hid_add_device hid (hid_add_device_rc E sensor) w12
                          in if rc \<noteq> 0 then
                               destroy_hid_device hid
                                 (hid_err hid (''Failed to add HID device: %d'' @ [CHR 0x0A])
                                    [rc] w13)
                             else (hid, w13))"

text \<open>
  \<^verbatim>\<open>struct amd_sfh_data\<close>: the PCI device and the array
  \<^verbatim>\<open>sensors[AMD_SFH_MAX_SENSORS]\<close>.
\<close>

record amd_sfh_data =
  priv_pci_dev :: addr
  sensors :: "ptr list"

text \<open>
  \<^verbatim>\<open>amd_sfh_client_init\<close>: the four blocks in the order of the source, each
  writing \<^verbatim>\<open>privdata->sensors[i++]\<close>.
\<close>

definition amd_sfh_client_init ::
  "headers \<Rightarrow> environment \<Rightarrow> amd_sfh_data \<Rightarrow> kernel \<Rightarrow> amd_sfh_data \<times> kernel" where
  "amd_sfh_client_init H E privdata w0 =
     (let i = (0 :: nat);
          pci_dev = priv_pci_dev privdata;
          sensor_mask = amd_sfh_get_sensor_mask E pci_dev;
          (p, w1) = (if sensor_mask AND ACCEL_MASK H \<noteq> 0
                     then amd_sfh_hid_probe H E pci_dev ACCEL_IDX w0 else (NULL, w0));
          privdata = privdata\<lparr>sensors := (sensors privdata)[i := p]\<rparr>;
          i = i + 1;
          (p, w2) = (if sensor_mask AND GYRO_MASK H \<noteq> 0
                     then amd_sfh_hid_probe H E pci_dev GYRO_IDX w1 else (NULL, w1));
          privdata = privdata\<lparr>sensors := (sensors privdata)[i := p]\<rparr>;
          i = i + 1;
          (p, w3) = (if sensor_mask AND MAGNO_MASK H \<noteq> 0
                     then amd_sfh_hid_probe H E pci_dev MAG_IDX w2 else (NULL, w2));
          privdata = privdata\<lparr>sensors := (sensors privdata)[i := p]\<rparr>;
          i = i + 1;
          (p, w4) = (if sensor_mask AND ALS_MASK H \<noteq> 0
                     then amd_sfh_hid_probe H E pci_dev ALS_IDX w3 else (NULL, w3));
          privdata = privdata\<lparr>sensors := (sensors privdata)[i := p]\<rparr>
      in (privdata, w4))"

text \<open>The body of the loop of \<^verbatim>\<open>amd_sfh_client_deinit\<close>, and the loop.\<close>

definition deinit_slot :: "nat \<Rightarrow> amd_sfh_data \<times> kernel \<Rightarrow> amd_sfh_data \<times> kernel" where
  "deinit_slot i s =
     (let privdata = fst s;
          w = snd s;
          w' = (if sensors privdata ! i \<noteq> NULL
                then hid_destroy_device (sensors privdata ! i) w else w)
      in (privdata\<lparr>sensors := (sensors privdata)[i := NULL]\<rparr>, w'))"

function deinit_loop :: "nat \<Rightarrow> amd_sfh_data \<times> kernel \<Rightarrow> amd_sfh_data \<times> kernel" where
  "deinit_loop i s =
     (if i < AMD_SFH_MAX_SENSORS then deinit_loop (i + 1) (deinit_slot i s) else s)"
  by pat_completeness auto
termination
  by (relation "measure (\<lambda>(i, s). AMD_SFH_MAX_SENSORS - i)") auto

declare deinit_loop.simps [simp del]

definition amd_sfh_client_deinit :: "amd_sfh_data \<Rightarrow> kernel \<Rightarrow> amd_sfh_data \<times> kernel" where
  "amd_sfh_client_deinit privdata w = deinit_loop 0 (privdata, w)"

subsection \<open>Observations\<close>

text \<open>
  What the statements below read off a world: the events added between two worlds, the
  blocks obtained and released in a list of events, the calls of
  \<^verbatim>\<open>hid_destroy_device\<close>, the unregistrations, the faults, and what a
  \<^verbatim>\<open>struct hid_device *\<close> points to.
\<close>

definition events_since :: "kernel \<Rightarrow> kernel \<Rightarrow> event list" where
  "events_since w w' = drop (length (trace w)) (trace w')"

fun kallocs :: "event list \<Rightarrow> addr list" where
  "kallocs [] = []"
| "kallocs (KALLOC a # evs) = a # kallocs evs"
| "kallocs (e # evs) = kallocs evs"

fun kfrees :: "event list \<Rightarrow> addr list" where
  "kfrees [] = []"
| "kfrees (KFREE a # evs) = a # kfrees evs"
| "kfrees (e # evs) = kfrees evs"

fun destroy_calls :: "event list \<Rightarrow> ptr list" where
  "destroy_calls [] = []"
| "destroy_calls (HID_DESTROY p # evs) = p # destroy_calls evs"
| "destroy_calls (e # evs) = destroy_calls evs"

fun unregistrations :: "event list \<Rightarrow> addr list" where
  "unregistrations [] = []"
| "unregistrations (HID_DEL a # evs) = a # unregistrations evs"
| "unregistrations (e # evs) = unregistrations evs"

fun faults :: "event list \<Rightarrow> ptr list" where
  "faults [] = []"
| "faults (FAULT p # evs) = p # faults evs"
| "faults (e # evs) = faults evs"

fun warnings :: "event list \<Rightarrow> string list" where
  "warnings [] = []"
| "warnings (HID_WARN p msg # evs) = msg # warnings evs"
| "warnings (e # evs) = warnings evs"

definition is_registered_device :: "kernel \<Rightarrow> ptr \<Rightarrow> bool" where
  "is_registered_device w p = (case deref_hid w p of Some d \<Rightarrow> hid_added d | None \<Rightarrow> False)"

definition device_name :: "kernel \<Rightarrow> ptr \<Rightarrow> string option" where
  "device_name w p = map_option hid_name (deref_hid w p)"

definition device_phys :: "kernel \<Rightarrow> ptr \<Rightarrow> string option" where
  "device_phys w p = map_option hid_phys (deref_hid w p)"

text \<open>The private data behind \<^verbatim>\<open>hid->driver_data\<close>, and its report buffer.\<close>

definition device_data :: "kernel \<Rightarrow> ptr \<Rightarrow> amd_sfh_hid_data option" where
  "device_data w p =
     (case deref_hid w p of Some d \<Rightarrow> deref_data w (hid_driver_data d) | None \<Rightarrow> None)"

definition device_report_buf :: "kernel \<Rightarrow> ptr \<Rightarrow> 8 word list option" where
  "device_report_buf w p =
     (case device_data w p of Some x \<Rightarrow> deref_bytes w (data_report_buf x) | None \<Rightarrow> None)"

text \<open>
  Every step of a probe succeeds. \<open>probe_success_iff\<close> below shows that this is
  exactly when \<^verbatim>\<open>amd_sfh_hid_probe\<close> returns a device.
\<close>

definition creation_ok :: "environment \<Rightarrow> sensor_idx \<Rightarrow> bool" where
  "creation_ok E k \<longleftrightarrow>
     hid_allocate_device_ok E k \<and> hid_data_kzalloc_ok E k \<and>
     0 \<le> get_descriptor_size E k AMD_SFH_INPUT_REPORT \<and>
     report_buf_kzalloc_ok E k \<and> hid_add_device_rc E k = 0"

text \<open>
  The warnings, the device and the private data that a probe produces, as the lemmas on
  \<^verbatim>\<open>amd_sfh_hid_probe\<close> below establish.
\<close>

definition probe_warnings :: "headers \<Rightarrow> sensor_idx \<Rightarrow> ptr \<Rightarrow> event list" where
  "probe_warnings H k hid =
     (if int (name_size H)
           \<le> to_size_t (snd (strscpy [] (amd_sfh_get_sensor_name k) (name_size H)))
      then [HID_WARN hid (''Could not set HID device name.'' @ [CHR 0x0A])] else [])
     @ (if int (phys_size H) \<le> to_size_t (snd (strscpy [] AMD_SFH_PHY_DEV (phys_size H)))
        then [HID_WARN hid (''Could not set HID device location.'' @ [CHR 0x0A])] else [])"

definition probe_device :: "headers \<Rightarrow> sensor_idx \<Rightarrow> addr \<Rightarrow> hid_device" where
  "probe_device H k a =
     \<lparr>hid_bus = BUS_I2C, hid_group = HID_GROUP_SENSOR_HUB, hid_vendor = AMD_SFH_HID_VENDOR,
      hid_product = AMD_SFH_HID_PRODUCT, hid_version = AMD_SFH_HID_VERSION,
      hid_type = HID_TYPE_OTHER, hid_ll_driver = AMD_SFH_HID_LL_DRIVER,
      hid_name = fst (strscpy [] (amd_sfh_get_sensor_name k) (name_size H)),
      hid_phys = fst (strscpy [] AMD_SFH_PHY_DEV (phys_size H)),
      hid_driver_data = Ptr (a + 1), hid_added = True, hid_devres = [a + 2, a + 1]\<rparr>"

definition probe_data :: "environment \<Rightarrow> addr \<Rightarrow> sensor_idx \<Rightarrow> addr \<Rightarrow> amd_sfh_hid_data" where
  "probe_data E pci k a =
     \<lparr>data_sensor_idx = k, data_pci_dev = pci, data_hid = Ptr a, data_cpu_addr = NULL,
      data_report_size = nat (get_descriptor_size E k AMD_SFH_INPUT_REPORT),
      data_report_buf = Ptr (a + 2)\<rparr>"

text \<open>
  The four blocks of \<^verbatim>\<open>amd_sfh_client_init\<close> pair a mask macro, a sensor
  index and a position of the array; \<open>init_step\<close> is one such block, and
  \<open>init_steps\<close> below shows that init is the four of them in a row. \<open>probe_heap\<close>
  is the heap a successful probe leaves.
\<close>

definition known_sensors :: "sensor_idx list" where
  "known_sensors = [ACCEL_IDX, GYRO_IDX, MAG_IDX, ALS_IDX]"

fun sensor_mask_bit :: "headers \<Rightarrow> sensor_idx \<Rightarrow> 32 word" where
  "sensor_mask_bit H ACCEL_IDX = ACCEL_MASK H"
| "sensor_mask_bit H GYRO_IDX = GYRO_MASK H"
| "sensor_mask_bit H MAG_IDX = MAGNO_MASK H"
| "sensor_mask_bit H ALS_IDX = ALS_MASK H"
| "sensor_mask_bit H (OTHER_IDX v) = 0"

fun sensor_slot :: "sensor_idx \<Rightarrow> nat" where
  "sensor_slot ACCEL_IDX = 0"
| "sensor_slot GYRO_IDX = 1"
| "sensor_slot MAG_IDX = 2"
| "sensor_slot ALS_IDX = 3"
| "sensor_slot (OTHER_IDX v) = AMD_SFH_MAX_SENSORS"

definition probe_heap ::
  "headers \<Rightarrow> environment \<Rightarrow> addr \<Rightarrow> sensor_idx \<Rightarrow> (addr \<times> obj) list \<Rightarrow> (addr \<times> obj) list" where
  "probe_heap H E pci k h =
     (top_addr h + 3, BYTES (replicate (nat (get_descriptor_size E k AMD_SFH_INPUT_REPORT)) 0))
     # (top_addr h + 2, HID_DATA (probe_data E pci k (Suc (top_addr h))))
     # (Suc (top_addr h), HID_DEVICE (probe_device H k (Suc (top_addr h))))
     # h"

definition init_step ::
  "headers \<Rightarrow> environment \<Rightarrow> addr \<Rightarrow> sensor_idx \<Rightarrow> kernel \<Rightarrow> ptr \<times> kernel" where
  "init_step H E pci k w =
     (if amd_sfh_get_sensor_mask E pci AND sensor_mask_bit H k \<noteq> 0
      then amd_sfh_hid_probe H E pci k w else (NULL, w))"

text \<open>The two warnings of \<^verbatim>\<open>amd_sfh_hid_probe\<close>.\<close>

definition name_warning :: string where
  "name_warning = ''Could not set HID device name.'' @ [CHR 0x0A]"

definition phys_warning :: string where
  "phys_warning = ''Could not set HID device location.'' @ [CHR 0x0A]"

subsection \<open>The life of a slot\<close>

text \<open>
  A slot is absent (\<^verbatim>\<open>NULL\<close>) or present. The driver attaches with an empty
  registry, runs \<^verbatim>\<open>amd_sfh_client_init\<close> once and then
  \<^verbatim>\<open>amd_sfh_client_deinit\<close> any number of times; \<open>reachable\<close> are the states
  of such runs. A second init is not among the steps.
\<close>

datatype slot_state = Absent | Present

definition slot_of :: "ptr \<Rightarrow> slot_state" where
  "slot_of p = (if p = NULL then Absent else Present)"

inductive slot_transition :: "slot_state \<Rightarrow> slot_state \<Rightarrow> bool" where
  create_succeeds: "slot_transition Absent Present"
| stays_absent: "slot_transition Absent Absent"
| destroy: "slot_transition Present Absent"

code_pred slot_transition .

datatype phase = ATTACHED | INITIALISED

datatype action = INIT environment | DEINIT

type_synonym driver_state = "phase \<times> amd_sfh_data \<times> kernel"

inductive lifecycle_step :: "headers \<Rightarrow> action \<Rightarrow> driver_state \<Rightarrow> driver_state \<Rightarrow> bool"
  for H :: headers where
  init: "lifecycle_step H (INIT E) (ATTACHED, p, w) (INITIALISED, amd_sfh_client_init H E p w)"
| deinit: "lifecycle_step H DEINIT (INITIALISED, p, w) (INITIALISED, amd_sfh_client_deinit p w)"

inductive reachable :: "headers \<Rightarrow> driver_state \<Rightarrow> bool" for H :: headers where
  attach: "sensors p = replicate AMD_SFH_MAX_SENSORS NULL \<Longrightarrow> reachable H (ATTACHED, p, w)"
| step: "reachable H s \<Longrightarrow> lifecycle_step H a s s' \<Longrightarrow> reachable H s'"

subsection \<open>Sample inputs\<close>

text \<open>
  Headers with the field sizes of linux/hid.h and four distinct mask bits, an environment
  in which the hub advertises the first and the last sensor and only the registration of
  the gyroscope fails, and the world before anything was allocated.
\<close>

definition example_headers :: headers where
  "example_headers =
     \<lparr>ACCEL_MASK = 1, GYRO_MASK = 2, MAGNO_MASK = 4, ALS_MASK = 8,
      name_size = 128, phys_size = 64, hid_data_size = 64\<rparr>"

definition example_environment :: environment where
  "example_environment =
     \<lparr>amd_sfh_get_sensor_mask = (\<lambda>pci. 9),
      get_descriptor_size = (\<lambda>k t. 5),
      hid_allocate_device_ok = (\<lambda>k. True),
      hid_data_kzalloc_ok = (\<lambda>k. True),
      report_buf_kzalloc_ok = (\<lambda>k. True),
      hid_add_device_rc = (\<lambda>k. if k = GYRO_IDX then - 5 else 0)\<rparr>"

definition empty_kernel :: kernel where
  "empty_kernel = \<lparr>heap = [], trace = []\<rparr>"

definition example_privdata :: amd_sfh_data where
  "example_privdata = \<lparr>priv_pci_dev = 7, sensors = [NULL, NULL, NULL, NULL]\<rparr>"

text \<open>
  The sample environment with three sensors advertised and no memory for the gyroscope's
  device.
\<close>

definition gyro_alloc_fails :: environment where
  "gyro_alloc_fails =
     example_environment\<lparr>amd_sfh_get_sensor_mask := \<lambda>pci. 11,
                         hid_allocate_device_ok := \<lambda>k. k \<noteq> GYRO_IDX\<rparr>"

section \<open>Properties\<close>

subsection \<open>The allocator\<close>

lemma max_Suc_self [simp]: "max (Suc n) n = Suc n" "max n (Suc n) = Suc n"
  by simp_all

lemma top_addr_ge: "(a, x) \<in> set h \<Longrightarrow> a \<le> top_addr h"
  by (induction h) auto

lemma map_of_above [simp]: "top_addr h < a \<Longrightarrow> map_of h a = None"
  by (induction h) auto

lemma heap_store_above [simp]: "top_addr h < a \<Longrightarrow> heap_store a x h = h"
  by (induction h) auto

lemma heap_release_above [simp]: "\<forall>a\<in>set as. top_addr h < a \<Longrightarrow> heap_release as h = h"
  by (induction h) auto

subsection \<open>What a probe does, outcome by outcome\<close>

lemmas kernel_defs =
  hid_allocate_device_def kalloc_def IS_ERR_def hid_write_def data_write_def deref_hid_def
  deref_data_def store_def fault_def devm_kzalloc_def hid_add_device_def
  hid_destroy_device_def strscpy_hid_name_def strscpy_hid_phys_def err_hid_alloc_def
  destroy_hid_device_def pci_err_def hid_warn_def hid_err_def zero_hid_device_def

lemma probe_success:
  assumes "creation_ok E k"
  shows "amd_sfh_hid_probe H E pci k w =
    (Ptr (Suc (top_addr (heap w))),
     w\<lparr>heap := (top_addr (heap w) + 3,
                  BYTES (replicate (nat (get_descriptor_size E k AMD_SFH_INPUT_REPORT)) 0))
               # (top_addr (heap w) + 2, HID_DATA (probe_data E pci k (Suc (top_addr (heap w)))))
               # (Suc (top_addr (heap w)), HID_DEVICE (probe_device H k (Suc (top_addr (heap w)))))
               # heap w,
       trace := trace w @ KALLOC (Suc (top_addr (heap w)))
                  # probe_warnings H k (Ptr (Suc (top_addr (heap w))))
                  @ [KALLOC (top_addr (heap w) + 2), KALLOC (top_addr (heap w) + 3),
                     HID_ADD (Suc (top_addr (heap w)))]\<rparr>)"
  using assms
  by (simp add: creation_ok_def amd_sfh_hid_probe_def kernel_defs Let_def probe_warnings_def
      probe_device_def probe_data_def)

lemma probe_alloc_fails:
  assumes "\<not> hid_allocate_device_ok E k"
  shows "amd_sfh_hid_probe H E pci k w =
    (NULL, w\<lparr>trace := trace w @ [PCI_ERR pci (''Failed to allocate HID device!'' @ [CHR 0x0A])]\<rparr>)"
  using assms
  by (simp add: amd_sfh_hid_probe_def kernel_defs Let_def)

lemma probe_data_fails:
  assumes "hid_allocate_device_ok E k" "\<not> hid_data_kzalloc_ok E k"
  shows "amd_sfh_hid_probe H E pci k w =
    (NULL, w\<lparr>trace := trace w @ KALLOC (Suc (top_addr (heap w)))
                  # probe_warnings H k (Ptr (Suc (top_addr (heap w))))
                  @ [HID_DESTROY (Ptr (Suc (top_addr (heap w)))),
                     KFREE (Suc (top_addr (heap w)))]\<rparr>)"
  using assms
  by (simp add: amd_sfh_hid_probe_def kernel_defs Let_def probe_warnings_def)

lemma probe_size_fails:
  assumes "hid_allocate_device_ok E k" "hid_data_kzalloc_ok E k"
    "get_descriptor_size E k AMD_SFH_INPUT_REPORT < 0"
  shows "amd_sfh_hid_probe H E pci k w =
    (NULL, w\<lparr>trace := trace w @ KALLOC (Suc (top_addr (heap w)))
                  # probe_warnings H k (Ptr (Suc (top_addr (heap w))))
                  @ [KALLOC (top_addr (heap w) + 2),
                     HID_ERR (Ptr (Suc (top_addr (heap w))))
                       (''Failed to get input descriptor size!'' @ [CHR 0x0A]) [],
                     HID_DESTROY (Ptr (Suc (top_addr (heap w)))),
                     KFREE (top_addr (heap w) + 2),
                     KFREE (Suc (top_addr (heap w)))]\<rparr>)"
  using assms
  by (simp add: amd_sfh_hid_probe_def kernel_defs Let_def probe_warnings_def)

lemma probe_buf_fails:
  assumes "hid_allocate_device_ok E k" "hid_data_kzalloc_ok E k"
    "0 \<le> get_descriptor_size E k AMD_SFH_INPUT_REPORT" "\<not> report_buf_kzalloc_ok E k"
  shows "amd_sfh_hid_probe H E pci k w =
    (NULL, w\<lparr>trace := trace w @ KALLOC (Suc (top_addr (heap w)))
                  # probe_warnings H k (Ptr (Suc (top_addr (heap w))))
                  @ [KALLOC (top_addr (heap w) + 2),
                     HID_ERR (Ptr (Suc (top_addr (heap w))))
                       (''Failed to allocate memory for report buffer!'' @ [CHR 0x0A]) [],
                     HID_DESTROY (Ptr (Suc (top_addr (heap w)))),
                     KFREE (top_addr (heap w) + 2),
                     KFREE (Suc (top_addr (heap w)))]\<rparr>)"
  using assms
  by (simp add: amd_sfh_hid_probe_def kernel_defs Let_def probe_warnings_def)

lemma probe_add_fails:
  assumes "hid_allocate_device_ok E k" "hid_data_kzalloc_ok E k"
    "0 \<le> get_descriptor_size E k AMD_SFH_INPUT_REPORT" "report_buf_kzalloc_ok E k"
    "hid_add_device_rc E k \<noteq> 0"
  shows "amd_sfh_hid_probe H E pci k w =
    (NULL, w\<lparr>trace := trace w @ KALLOC (Suc (top_addr (heap w)))
                  # probe_warnings H k (Ptr (Suc (top_addr (heap w))))
                  @ [KALLOC (top_addr (heap w) + 2), KALLOC (top_addr (heap w) + 3),
                     HID_ERR (Ptr (Suc (top_addr (heap w))))
                       (''Failed to add HID device: %d'' @ [CHR 0x0A]) [hid_add_device_rc E k],
                     HID_DESTROY (Ptr (Suc (top_addr (heap w)))),
                     KFREE (top_addr (heap w) + 3), KFREE (top_addr (heap w) + 2),
                     KFREE (Suc (top_addr (heap w)))]\<rparr>)"
  using assms
  by (simp add: amd_sfh_hid_probe_def kernel_defs Let_def probe_warnings_def)

subsection \<open>The sensor catalog\<close>

text \<open>
  C8. The name lookup is total: each of the four known sensor indices has its own
  human-readable name, and every other value gets the label ``unknown sensor type''.
\<close>

theorem amd_sfh_get_sensor_name_total:
  "amd_sfh_get_sensor_name ACCEL_IDX = ''accelerometer'' \<and>
   amd_sfh_get_sensor_name GYRO_IDX = ''gyroscope'' \<and>
   amd_sfh_get_sensor_name MAG_IDX = ''magnetometer'' \<and>
   amd_sfh_get_sensor_name ALS_IDX = ''ambient light sensor'' \<and>
   (k \<notin> {ACCEL_IDX, GYRO_IDX, MAG_IDX, ALS_IDX} \<longrightarrow>
      amd_sfh_get_sensor_name k = ''unknown sensor type'')"
  by (cases k) simp_all

theorem amd_sfh_get_sensor_name_total_witness:
  "OTHER_IDX 42 \<notin> {ACCEL_IDX, GYRO_IDX, MAG_IDX, ALS_IDX} \<and>
   amd_sfh_get_sensor_name (OTHER_IDX 42) = ''unknown sensor type'' \<and>
   amd_sfh_get_sensor_name ALS_IDX = ''ambient light sensor''"
  using amd_sfh_get_sensor_name_total [of "OTHER_IDX 42"] by simp

subsection \<open>Failure and success of a probe\<close>

lemma creation_cases [case_names ok alloc data size buf add]:
  obtains "creation_ok E k"
  | "\<not> hid_allocate_device_ok E k"
  | "hid_allocate_device_ok E k" "\<not> hid_data_kzalloc_ok E k"
  | "hid_allocate_device_ok E k" "hid_data_kzalloc_ok E k"
    "get_descriptor_size E k AMD_SFH_INPUT_REPORT < 0"
  | "hid_allocate_device_ok E k" "hid_data_kzalloc_ok E k"
    "0 \<le> get_descriptor_size E k AMD_SFH_INPUT_REPORT" "\<not> report_buf_kzalloc_ok E k"
  | "hid_allocate_device_ok E k" "hid_data_kzalloc_ok E k"
    "0 \<le> get_descriptor_size E k AMD_SFH_INPUT_REPORT" "report_buf_kzalloc_ok E k"
    "hid_add_device_rc E k \<noteq> 0"
  unfolding creation_ok_def by (meson not_le)

lemma kallocs_append [simp]: "kallocs (xs @ ys) = kallocs xs @ kallocs ys"
  by (induction xs rule: kallocs.induct) simp_all

lemma kfrees_append [simp]: "kfrees (xs @ ys) = kfrees xs @ kfrees ys"
  by (induction xs rule: kfrees.induct) simp_all

lemma destroy_calls_append [simp]: "destroy_calls (xs @ ys) = destroy_calls xs @ destroy_calls ys"
  by (induction xs rule: destroy_calls.induct) simp_all

lemma unregistrations_append [simp]:
  "unregistrations (xs @ ys) = unregistrations xs @ unregistrations ys"
  by (induction xs rule: unregistrations.induct) simp_all

lemma faults_append [simp]: "faults (xs @ ys) = faults xs @ faults ys"
  by (induction xs rule: faults.induct) simp_all

lemma warnings_append [simp]: "warnings (xs @ ys) = warnings xs @ warnings ys"
  by (induction xs rule: warnings.induct) simp_all

lemma probe_warnings_silent [simp]:
  "kallocs (probe_warnings H k p) = []" "kfrees (probe_warnings H k p) = []"
  "destroy_calls (probe_warnings H k p) = []" "unregistrations (probe_warnings H k p) = []"
  "faults (probe_warnings H k p) = []"
  by (simp_all add: probe_warnings_def)

lemma events_since_extend [simp]:
  "events_since w (w\<lparr>trace := trace w @ evs\<rparr>) = evs"
  "events_since w (w\<lparr>heap := h, trace := trace w @ evs\<rparr>) = evs"
  by (simp_all add: events_since_def)

lemma probe_success_iff: "fst (amd_sfh_hid_probe H E pci k w) \<noteq> NULL \<longleftrightarrow> creation_ok E k"
proof (cases E k rule: creation_cases)
  case ok
  then show ?thesis by (simp add: probe_success)
next
  case alloc
  then show ?thesis by (simp add: probe_alloc_fails creation_ok_def)
next
  case data
  then show ?thesis by (simp add: probe_data_fails creation_ok_def)
next
  case size
  then show ?thesis by (simp add: probe_size_fails creation_ok_def)
next
  case buf
  then show ?thesis by (simp add: probe_buf_fails creation_ok_def)
next
  case add
  then show ?thesis by (simp add: probe_add_fails creation_ok_def)
qed

lemmas example_defs = example_headers_def example_environment_def empty_kernel_def

lemma strscpy_fits:
  "length src < count \<Longrightarrow> count \<le> INT_MAX \<Longrightarrow> strscpy dest src count = (src, int (length src))"
  by (auto simp: strscpy_def)

lemma strscpy_truncates:
  "count \<le> length src \<Longrightarrow> length src \<le> INT_MAX \<Longrightarrow>
   strscpy [] src count = (take (count - 1) src, - E2BIG)"
  by (auto simp: strscpy_def)

lemma sensor_name_short: "length (amd_sfh_get_sensor_name k) \<le> 20"
  by (cases k) simp_all

lemma probe_success_deref:
  assumes "creation_ok E k"
  shows "deref_hid (snd (amd_sfh_hid_probe H E pci k w)) (fst (amd_sfh_hid_probe H E pci k w))
           = Some (probe_device H k (Suc (top_addr (heap w))))"
    and "device_data (snd (amd_sfh_hid_probe H E pci k w)) (fst (amd_sfh_hid_probe H E pci k w))
           = Some (probe_data E pci k (Suc (top_addr (heap w))))"
    and "device_report_buf (snd (amd_sfh_hid_probe H E pci k w))
           (fst (amd_sfh_hid_probe H E pci k w))
           = Some (replicate (nat (get_descriptor_size E k AMD_SFH_INPUT_REPORT)) 0)"
  using assms
  by (simp_all add: probe_success deref_hid_def device_data_def deref_data_def
      device_report_buf_def deref_bytes_def probe_device_def probe_data_def)

text \<open>
  C2. Whichever step of \<^verbatim>\<open>amd_sfh_hid_probe\<close> fails (the allocation of the
  device, the allocation of its private data, the descriptor-size lookup, the allocation
  of the report buffer, the registration), the function returns \<^verbatim>\<open>NULL\<close>, the
  heap is what it was before the call, and the blocks obtained during the call are
  pairwise distinct and are released, each exactly once and nothing else, in reverse
  order; no invalid pointer is used.
\<close>

theorem probe_failure_releases_everything:
  assumes "\<not> hid_allocate_device_ok E k \<or> \<not> hid_data_kzalloc_ok E k \<or>
           get_descriptor_size E k AMD_SFH_INPUT_REPORT < 0 \<or>
           \<not> report_buf_kzalloc_ok E k \<or> hid_add_device_rc E k \<noteq> 0"
  shows "(let r = amd_sfh_hid_probe H E pci k w; evs = events_since w (snd r)
          in fst r = NULL \<and> heap (snd r) = heap w \<and> trace (snd r) = trace w @ evs \<and>
             distinct (kallocs evs) \<and> kfrees evs = rev (kallocs evs) \<and> faults evs = [])"
proof (cases E k rule: creation_cases)
  case ok
  with assms show ?thesis by (simp add: creation_ok_def)
next
  case alloc
  then show ?thesis by (simp add: probe_alloc_fails)
next
  case data
  then show ?thesis by (simp add: probe_data_fails)
next
  case size
  then show ?thesis by (simp add: probe_size_fails)
next
  case buf
  then show ?thesis by (simp add: probe_buf_fails)
next
  case add
  then show ?thesis by (simp add: probe_add_fails)
qed


theorem probe_failure_releases_everything_witness:
  "hid_add_device_rc example_environment GYRO_IDX \<noteq> 0 \<and>
   amd_sfh_hid_probe example_headers example_environment 7 GYRO_IDX empty_kernel =
     (NULL, empty_kernel\<lparr>trace :=
        [KALLOC 1, KALLOC 2, KALLOC 3,
         HID_ERR (Ptr 1) (''Failed to add HID device: %d'' @ [CHR 0x0A]) [- 5],
         HID_DESTROY (Ptr 1), KFREE 3, KFREE 2, KFREE 1]\<rparr>) \<and>
   kfrees (events_since empty_kernel
     (snd (amd_sfh_hid_probe example_headers example_environment 7 GYRO_IDX empty_kernel))) =
   rev (kallocs (events_since empty_kernel
     (snd (amd_sfh_hid_probe example_headers example_environment 7 GYRO_IDX empty_kernel))))"
  using probe_failure_releases_everything
    [of example_environment GYRO_IDX example_headers 7 empty_kernel]
  by (simp add: example_defs probe_add_fails probe_warnings_def strscpy_def to_size_t_def
      INT_MAX_def AMD_SFH_PHY_DEV_def events_since_def)

text \<open>
  C6. When \<^verbatim>\<open>amd_sfh_hid_probe\<close> returns a device, its name is the catalog
  name of the sensor index (the fallback label for an index outside the four known ones),
  provided the name array of \<^verbatim>\<open>struct hid_device\<close> has room for it, as the 128
  bytes of linux/hid.h have for every catalog name; the descriptor size was not negative,
  the private data records it, and the report buffer consists of that many zero bytes.
\<close>

theorem probe_device_name_and_buffer:
  assumes "fst (amd_sfh_hid_probe H E pci k w) \<noteq> NULL"
    and "length (amd_sfh_get_sensor_name k) < name_size H" and "name_size H \<le> INT_MAX"
  shows "(let r = amd_sfh_hid_probe H E pci k w;
              n = get_descriptor_size E k AMD_SFH_INPUT_REPORT
          in device_name (snd r) (fst r) = Some (amd_sfh_get_sensor_name k) \<and>
             0 \<le> n \<and>
             map_option data_report_size (device_data (snd r) (fst r)) = Some (nat n) \<and>
             device_report_buf (snd r) (fst r) = Some (replicate (nat n) 0))"
proof -
  from assms(1) have ok: "creation_ok E k" by (simp add: probe_success_iff)
  then have "0 \<le> get_descriptor_size E k AMD_SFH_INPUT_REPORT"
    by (simp add: creation_ok_def)
  moreover have "hid_name (probe_device H k a) = amd_sfh_get_sensor_name k" for a
    using assms(2,3) by (simp add: probe_device_def strscpy_fits)
  moreover have "data_report_size (probe_data E pci k a)
      = nat (get_descriptor_size E k AMD_SFH_INPUT_REPORT)" for a
    by (simp add: probe_data_def)
  ultimately show ?thesis
    using probe_success_deref [OF ok] by (simp add: Let_def device_name_def)
qed

theorem probe_device_name_and_buffer_witness:
  "fst (amd_sfh_hid_probe example_headers example_environment 7 ALS_IDX empty_kernel) = Ptr 1 \<and>
   length (amd_sfh_get_sensor_name ALS_IDX) < name_size example_headers \<and>
   name_size example_headers \<le> INT_MAX \<and>
   device_name (snd (amd_sfh_hid_probe example_headers example_environment 7 ALS_IDX empty_kernel))
     (Ptr 1) = Some ''ambient light sensor'' \<and>
   device_report_buf
     (snd (amd_sfh_hid_probe example_headers example_environment 7 ALS_IDX empty_kernel))
     (Ptr 1) = Some (replicate 5 0)"
  using probe_device_name_and_buffer [of example_headers example_environment 7 ALS_IDX empty_kernel]
  by (simp add: example_defs probe_success creation_ok_def INT_MAX_def Let_def)

subsection \<open>Initialisation\<close>

lemma probe_null_iff: "fst (amd_sfh_hid_probe H E pci k w) = NULL \<longleftrightarrow> \<not> creation_ok E k"
  using probe_success_iff [of H E pci k w] by blast

lemma probe_fst:
  "fst (amd_sfh_hid_probe H E pci k w) =
     (if creation_ok E k then Ptr (Suc (top_addr (heap w))) else NULL)"
  using probe_null_iff [of H E pci k w] by (simp add: probe_success)

lemma probe_heap:
  "heap (snd (amd_sfh_hid_probe H E pci k w)) =
     (if creation_ok E k then probe_heap H E pci k (heap w) else heap w)"
proof (cases E k rule: creation_cases)
  case ok
  then show ?thesis by (simp add: probe_success probe_heap_def)
next
  case alloc
  then show ?thesis by (simp add: probe_alloc_fails creation_ok_def)
next
  case data
  then show ?thesis by (simp add: probe_data_fails creation_ok_def)
next
  case size
  then show ?thesis by (simp add: probe_size_fails creation_ok_def)
next
  case buf
  then show ?thesis by (simp add: probe_buf_fails creation_ok_def)
next
  case add
  then show ?thesis by (simp add: probe_add_fails creation_ok_def)
qed

lemma probe_trace:
  "trace (snd (amd_sfh_hid_probe H E pci k w)) =
     trace w @ events_since w (snd (amd_sfh_hid_probe H E pci k w))"
  by (cases E k rule: creation_cases)
    (simp_all add: probe_success probe_alloc_fails probe_data_fails probe_size_fails
      probe_buf_fails probe_add_fails)

lemma probe_events_quiet:
  "faults (events_since w (snd (amd_sfh_hid_probe H E pci k w))) = []"
  "unregistrations (events_since w (snd (amd_sfh_hid_probe H E pci k w))) = []"
  by (cases E k rule: creation_cases;
      simp add: probe_success probe_alloc_fails probe_data_fails probe_size_fails
      probe_buf_fails probe_add_fails)+

lemma init_steps:
  "amd_sfh_client_init H E p w =
     (let pci = priv_pci_dev p;
          r0 = init_step H E pci ACCEL_IDX w;
          r1 = init_step H E pci GYRO_IDX (snd r0);
          r2 = init_step H E pci MAG_IDX (snd r1);
          r3 = init_step H E pci ALS_IDX (snd r2)
      in (p\<lparr>sensors := (sensors p)[0 := fst r0, 1 := fst r1, 2 := fst r2, 3 := fst r3]\<rparr>,
          snd r3))"
  by (simp add: amd_sfh_client_init_def init_step_def Let_def split_def eval_nat_numeral
      split del: if_split cong: if_cong)

lemma list4: "length xs = 4 \<Longrightarrow> \<exists>a b c d. xs = [a, b, c, d]"
  by (auto simp: length_Suc_conv eval_nat_numeral)

lemma init_sensors:
  assumes "length (sensors p) = AMD_SFH_MAX_SENSORS"
  shows "sensors (fst (amd_sfh_client_init H E p w)) =
     (let pci = priv_pci_dev p;
          r0 = init_step H E pci ACCEL_IDX w;
          r1 = init_step H E pci GYRO_IDX (snd r0);
          r2 = init_step H E pci MAG_IDX (snd r1);
          r3 = init_step H E pci ALS_IDX (snd r2)
      in [fst r0, fst r1, fst r2, fst r3])"
proof -
  from assms have "length (sensors p) = 4"
    by (simp add: AMD_SFH_MAX_SENSORS_def)
  then obtain a b c d where "sensors p = [a, b, c, d]"
    using list4 by blast
  then show ?thesis by (simp add: init_steps Let_def)
qed

lemma init_step_fst:
  "fst (init_step H E pci k w) =
     (if amd_sfh_get_sensor_mask E pci AND sensor_mask_bit H k \<noteq> 0 \<and> creation_ok E k
      then Ptr (Suc (top_addr (heap w))) else NULL)"
  by (simp add: init_step_def probe_fst)

lemma init_step_heap:
  "heap (snd (init_step H E pci k w)) =
     (if amd_sfh_get_sensor_mask E pci AND sensor_mask_bit H k \<noteq> 0 \<and> creation_ok E k
      then probe_heap H E pci k (heap w) else heap w)"
  by (simp add: init_step_def probe_heap)

lemma init_step_extends:
  "\<exists>evs. trace (snd (init_step H E pci k w)) = trace w @ evs \<and> faults evs = [] \<and>
         unregistrations evs = []"
proof (cases "amd_sfh_get_sensor_mask E pci AND sensor_mask_bit H k \<noteq> 0")
  case True
  then show ?thesis
    using probe_trace [of H E pci k w] probe_events_quiet [of w H E pci k]
    by (simp add: init_step_def)
next
  case False
  then show ?thesis by (simp add: init_step_def)
qed

lemma init_extends:
  "\<exists>evs. trace (snd (amd_sfh_client_init H E p w)) = trace w @ evs \<and> faults evs = [] \<and>
         unregistrations evs = []"
proof -
  define pci where "pci = priv_pci_dev p"
  define r0 where "r0 = init_step H E pci ACCEL_IDX w"
  define r1 where "r1 = init_step H E pci GYRO_IDX (snd r0)"
  define r2 where "r2 = init_step H E pci MAG_IDX (snd r1)"
  define r3 where "r3 = init_step H E pci ALS_IDX (snd r2)"
  obtain e0 where e0: "trace (snd r0) = trace w @ e0" "faults e0 = []" "unregistrations e0 = []"
    unfolding r0_def using init_step_extends by blast
  obtain e1 where e1: "trace (snd r1) = trace (snd r0) @ e1" "faults e1 = []"
      "unregistrations e1 = []"
    unfolding r1_def using init_step_extends by blast
  obtain e2 where e2: "trace (snd r2) = trace (snd r1) @ e2" "faults e2 = []"
      "unregistrations e2 = []"
    unfolding r2_def using init_step_extends by blast
  obtain e3 where e3: "trace (snd r3) = trace (snd r2) @ e3" "faults e3 = []"
      "unregistrations e3 = []"
    unfolding r3_def using init_step_extends by blast
  have "snd (amd_sfh_client_init H E p w) = snd r3"
    by (simp add: init_steps Let_def r3_def r2_def r1_def r0_def pci_def)
  then have "trace (snd (amd_sfh_client_init H E p w)) = trace w @ (e0 @ e1 @ e2 @ e3)"
    using e0(1) e1(1) e2(1) e3(1) by simp
  moreover have "faults (e0 @ e1 @ e2 @ e3) = []" "unregistrations (e0 @ e1 @ e2 @ e3) = []"
    using e0 e1 e2 e3 by simp_all
  ultimately show ?thesis by blast
qed

lemma events_since_append: "trace w' = trace w @ evs \<Longrightarrow> events_since w w' = evs"
  by (simp add: events_since_def)

lemma init_faults: "faults (events_since w (snd (amd_sfh_client_init H E p w))) = []"
  using init_extends [of H E p w] by (auto simp: events_since_append)

lemma init_heap:
  "heap (snd (amd_sfh_client_init H E p w)) =
     (let pci = priv_pci_dev p;
          r0 = init_step H E pci ACCEL_IDX w;
          r1 = init_step H E pci GYRO_IDX (snd r0);
          r2 = init_step H E pci MAG_IDX (snd r1);
          r3 = init_step H E pci ALS_IDX (snd r2)
      in heap (snd r3))"
  by (simp add: init_steps Let_def)

lemma creation_ok_mask [simp]:
  "creation_ok (E\<lparr>amd_sfh_get_sensor_mask := f\<rparr>) k = creation_ok E k"
  by (simp add: creation_ok_def)


lemma probe_heap_mask [simp]:
  "probe_heap H (E\<lparr>amd_sfh_get_sensor_mask := f\<rparr>) pci k h = probe_heap H E pci k h"
  by (simp add: probe_heap_def probe_data_def)

lemma init_step_present:
  "(fst (init_step H E pci k w) \<noteq> NULL) =
     (amd_sfh_get_sensor_mask E pci AND sensor_mask_bit H k \<noteq> 0 \<and> creation_ok E k)"
  by (simp add: init_step_fst)

lemma init_slot_present_iff:
  assumes "length (sensors p) = AMD_SFH_MAX_SENSORS" and "k \<in> set known_sensors"
  shows "(sensors (fst (amd_sfh_client_init H E p w)) ! sensor_slot k \<noteq> NULL) =
         (amd_sfh_get_sensor_mask E (priv_pci_dev p) AND sensor_mask_bit H k \<noteq> 0 \<and>
          creation_ok E k)"
proof -
  let ?pci = "priv_pci_dev p"
  define r0 where "r0 = init_step H E ?pci ACCEL_IDX w"
  define r1 where "r1 = init_step H E ?pci GYRO_IDX (snd r0)"
  define r2 where "r2 = init_step H E ?pci MAG_IDX (snd r1)"
  define r3 where "r3 = init_step H E ?pci ALS_IDX (snd r2)"
  have S: "sensors (fst (amd_sfh_client_init H E p w)) = [fst r0, fst r1, fst r2, fst r3]"
    by (simp add: init_sensors [OF assms(1)] Let_def r0_def r1_def r2_def r3_def)
  from assms(2) consider "k = ACCEL_IDX" | "k = GYRO_IDX" | "k = MAG_IDX" | "k = ALS_IDX"
    by (auto simp: known_sensors_def)
  then show ?thesis
  proof cases
    case 1
    then show ?thesis
      unfolding S by (simp add: r0_def init_step_present del: sensor_mask_bit.simps)
  next
    case 2
    then show ?thesis
      unfolding S by (simp add: r1_def init_step_present del: sensor_mask_bit.simps)
  next
    case 3
    then show ?thesis
      unfolding S by (simp add: r2_def init_step_present del: sensor_mask_bit.simps)
  next
    case 4
    then show ?thesis
      unfolding S by (simp add: r3_def init_step_present del: sensor_mask_bit.simps)
  qed
qed


text \<open>
  C1. After \<^verbatim>\<open>amd_sfh_client_init\<close>, the slot of each of the four sensor kinds
  is not \<^verbatim>\<open>NULL\<close> if and only if the kind's bit is set in the sensor mask and
  \<^verbatim>\<open>amd_sfh_hid_probe\<close> succeeds for the kind. Whether the probe returns a
  device does not depend on the world it runs in, so \<open>w'\<close> is any world, the one in
  which init issues the call among them.
\<close>

theorem init_mask_fidelity:
  assumes "length (sensors privdata) = AMD_SFH_MAX_SENSORS"
    and "k \<in> set known_sensors"
  shows "sensors (fst (amd_sfh_client_init H E privdata w)) ! sensor_slot k \<noteq> NULL \<longleftrightarrow>
         amd_sfh_get_sensor_mask E (priv_pci_dev privdata) AND sensor_mask_bit H k \<noteq> 0 \<and>
         fst (amd_sfh_hid_probe H E (priv_pci_dev privdata) k w') \<noteq> NULL"
  using init_slot_present_iff [OF assms, of H E w] by (simp add: probe_success_iff)


theorem init_mask_fidelity_witness:
  "length (sensors example_privdata) = AMD_SFH_MAX_SENSORS \<and>
   ALS_IDX \<in> set known_sensors \<and>
   sensors (fst (amd_sfh_client_init example_headers example_environment example_privdata
     empty_kernel)) ! sensor_slot ALS_IDX \<noteq> NULL \<and>
   amd_sfh_get_sensor_mask example_environment (priv_pci_dev example_privdata)
     AND sensor_mask_bit example_headers ALS_IDX \<noteq> 0 \<and>
   fst (amd_sfh_hid_probe example_headers example_environment (priv_pci_dev example_privdata)
     ALS_IDX empty_kernel) \<noteq> NULL"
  using init_mask_fidelity [of example_privdata ALS_IDX example_headers example_environment
      empty_kernel empty_kernel]
  by (simp add: example_defs example_privdata_def known_sensors_def AMD_SFH_MAX_SENSORS_def
      probe_success_iff creation_ok_def)

text \<open>
  C3. If the probe of a sensor kind \<open>K\<close> fails, init leaves \<open>K\<close>'s slot
  \<^verbatim>\<open>NULL\<close> and fills every slot, and leaves the heap, exactly as it does under
  a mask \<open>M'\<close> that has \<open>K\<close>'s bit unset and agrees with the hub's mask on the bits
  of the other kinds; init runs to its end and uses no invalid pointer.
\<close>

theorem init_partial_failure_isolated:
  assumes len: "length (sensors privdata) = AMD_SFH_MAX_SENSORS"
    and K: "K \<in> set known_sensors"
    and fails: "fst (amd_sfh_hid_probe H E (priv_pci_dev privdata) K w') = NULL"
    and unset: "M' AND sensor_mask_bit H K = 0"
    and others: "\<forall>k. k \<noteq> K \<longrightarrow>
        (M' AND sensor_mask_bit H k \<noteq> 0) =
        (amd_sfh_get_sensor_mask E (priv_pci_dev privdata) AND sensor_mask_bit H k \<noteq> 0)"
  shows "(let r = amd_sfh_client_init H E privdata w;
              r' = amd_sfh_client_init H (E\<lparr>amd_sfh_get_sensor_mask := \<lambda>pci. M'\<rparr>) privdata w
          in sensors (fst r) ! sensor_slot K = NULL \<and>
             sensors (fst r) = sensors (fst r') \<and>
             heap (snd r) = heap (snd r') \<and>
             faults (events_since w (snd r)) = [])"
proof -
  let ?pci = "priv_pci_dev privdata"
  let ?E' = "E\<lparr>amd_sfh_get_sensor_mask := \<lambda>pci. M'\<rparr>"
  have nok: "\<not> creation_ok E K"
    using fails by (simp add: probe_null_iff)
  have o: "(M' AND sensor_mask_bit H k = 0) =
           (amd_sfh_get_sensor_mask E ?pci AND sensor_mask_bit H k = 0)" if "k \<noteq> K" for k
    using others that by blast
  have step: "fst (init_step H E ?pci k v) = fst (init_step H ?E' ?pci k v') \<and>
              heap (snd (init_step H E ?pci k v)) = heap (snd (init_step H ?E' ?pci k v'))"
    if "heap v = heap v'" for k v v'
  proof (cases "k = K")
    case True
    with nok unset that show ?thesis by (simp add: init_step_fst init_step_heap)
  next
    case False
    with o [of k] that show ?thesis by (simp add: init_step_fst init_step_heap)
  qed
  define r0 where "r0 = init_step H E ?pci ACCEL_IDX w"
  define r1 where "r1 = init_step H E ?pci GYRO_IDX (snd r0)"
  define r2 where "r2 = init_step H E ?pci MAG_IDX (snd r1)"
  define r3 where "r3 = init_step H E ?pci ALS_IDX (snd r2)"
  define r0' where "r0' = init_step H ?E' ?pci ACCEL_IDX w"
  define r1' where "r1' = init_step H ?E' ?pci GYRO_IDX (snd r0')"
  define r2' where "r2' = init_step H ?E' ?pci MAG_IDX (snd r1')"
  define r3' where "r3' = init_step H ?E' ?pci ALS_IDX (snd r2')"
  have s0: "fst r0 = fst r0' \<and> heap (snd r0) = heap (snd r0')"
    unfolding r0_def r0'_def by (rule step) simp
  then have s1: "fst r1 = fst r1' \<and> heap (snd r1) = heap (snd r1')"
    unfolding r1_def r1'_def by (intro step) simp
  then have s2: "fst r2 = fst r2' \<and> heap (snd r2) = heap (snd r2')"
    unfolding r2_def r2'_def by (intro step) simp
  then have s3: "fst r3 = fst r3' \<and> heap (snd r3) = heap (snd r3')"
    unfolding r3_def r3'_def by (intro step) simp
  have S: "sensors (fst (amd_sfh_client_init H E privdata w)) = [fst r0, fst r1, fst r2, fst r3]"
    by (simp add: init_sensors [OF len] Let_def r0_def r1_def r2_def r3_def)
  have S': "sensors (fst (amd_sfh_client_init H ?E' privdata w))
      = [fst r0', fst r1', fst r2', fst r3']"
    by (simp add: init_sensors [OF len] Let_def r0'_def r1'_def r2'_def r3'_def)
  have h: "heap (snd (amd_sfh_client_init H E privdata w)) = heap (snd r3)"
    by (simp add: init_heap Let_def r0_def r1_def r2_def r3_def)
  have h': "heap (snd (amd_sfh_client_init H ?E' privdata w)) = heap (snd r3')"
    by (simp add: init_heap Let_def r0'_def r1'_def r2'_def r3'_def)
  have absent: "sensors (fst (amd_sfh_client_init H E privdata w)) ! sensor_slot K = NULL"
    using K nok unfolding S
    by (auto simp: known_sensors_def r0_def r1_def r2_def r3_def init_step_fst)
  show ?thesis
    using s0 s1 s2 s3 absent by (simp add: Let_def S S' h h' init_faults)
qed


theorem init_partial_failure_isolated_witness:
  "fst (amd_sfh_hid_probe example_headers
          (example_environment\<lparr>amd_sfh_get_sensor_mask := \<lambda>pci. 11\<rparr>)
          (priv_pci_dev example_privdata) GYRO_IDX empty_kernel) = NULL \<and>
   (9 :: 32 word) AND sensor_mask_bit example_headers GYRO_IDX = 0 \<and>
   sensors (fst (amd_sfh_client_init example_headers
      (example_environment\<lparr>amd_sfh_get_sensor_mask := \<lambda>pci. 11\<rparr>) example_privdata
      empty_kernel)) = [Ptr 1, NULL, NULL, Ptr 4] \<and>
   sensors (fst (amd_sfh_client_init example_headers
      (example_environment\<lparr>amd_sfh_get_sensor_mask := \<lambda>pci. 9\<rparr>) example_privdata
      empty_kernel)) = [Ptr 1, NULL, NULL, Ptr 4]"
proof -
  let ?E = "example_environment\<lparr>amd_sfh_get_sensor_mask := \<lambda>pci. 11\<rparr>"
  have len: "length (sensors example_privdata) = AMD_SFH_MAX_SENSORS"
    by (simp add: example_privdata_def AMD_SFH_MAX_SENSORS_def)
  have K: "GYRO_IDX \<in> set known_sensors"
    by (simp add: known_sensors_def)
  have fails: "fst (amd_sfh_hid_probe example_headers ?E (priv_pci_dev example_privdata)
      GYRO_IDX empty_kernel) = NULL"
    by (simp add: probe_null_iff creation_ok_def example_defs)
  have unset: "(9 :: 32 word) AND sensor_mask_bit example_headers GYRO_IDX = 0"
    by (simp add: example_defs)
  have others: "\<forall>k. k \<noteq> GYRO_IDX \<longrightarrow>
      ((9 :: 32 word) AND sensor_mask_bit example_headers k \<noteq> 0) =
      (amd_sfh_get_sensor_mask ?E (priv_pci_dev example_privdata)
         AND sensor_mask_bit example_headers k \<noteq> 0)"
  proof (intro allI impI)
    fix k :: sensor_idx
    assume "k \<noteq> GYRO_IDX"
    then show "((9 :: 32 word) AND sensor_mask_bit example_headers k \<noteq> 0) =
      (amd_sfh_get_sensor_mask ?E (priv_pci_dev example_privdata)
         AND sensor_mask_bit example_headers k \<noteq> 0)"
      by (cases k) (simp_all add: example_defs)
  qed
  have "sensors (fst (amd_sfh_client_init example_headers ?E example_privdata empty_kernel))
      = [Ptr 1, NULL, NULL, Ptr 4]"
    by (subst init_sensors [OF len])
      (simp add: Let_def init_step_fst init_step_heap probe_heap_def creation_ok_def
        example_defs example_privdata_def)
  with init_partial_failure_isolated [OF len K fails unset others, of empty_kernel]
    fails unset
  show ?thesis by (simp add: Let_def)
qed

subsection \<open>Teardown\<close>

lemma deinit_loop_fold: "deinit_loop i s = fold deinit_slot [i..<AMD_SFH_MAX_SENSORS] s"
proof (induction i s rule: deinit_loop.induct)
  case (1 i s)
  show ?case
  proof (cases "i < AMD_SFH_MAX_SENSORS")
    case True
    with "1" show ?thesis
      by (subst deinit_loop.simps) (simp add: upt_conv_Cons)
  next
    case False
    then show ?thesis
      by (subst deinit_loop.simps) simp
  qed
qed

lemma slots_upt: "[0..<AMD_SFH_MAX_SENSORS] = [0, 1, 2, 3]"
  by (simp add: AMD_SFH_MAX_SENSORS_def upt_conv_Cons)

lemma deinit_fold:
  "amd_sfh_client_deinit p w = fold deinit_slot [0, 1, 2, 3] (p, w)"
  by (simp add: amd_sfh_client_deinit_def deinit_loop_fold slots_upt)

lemma map_KFREE_silent [simp]:
  "destroy_calls (map KFREE as) = []" "faults (map KFREE as) = []"
  "unregistrations (map KFREE as) = []" "kallocs (map KFREE as) = []"
  "kfrees (map KFREE as) = as"
  by (induction as) simp_all

lemma destroy_extends:
  "\<exists>evs. trace (hid_destroy_device q w) = trace w @ evs \<and> destroy_calls evs = [q]"
  by (simp add: hid_destroy_device_def Let_def split: ptr.splits option.splits)

lemma deinit_slot_fst:
  "fst (deinit_slot i s) = (fst s)\<lparr>sensors := (sensors (fst s))[i := NULL]\<rparr>"
  by (simp add: deinit_slot_def Let_def)

lemma deinit_slot_extends:
  "\<exists>evs. trace (snd (deinit_slot i s)) = trace (snd s) @ evs \<and>
         destroy_calls evs = (if sensors (fst s) ! i \<noteq> NULL then [sensors (fst s) ! i] else [])"
  using destroy_extends [of "sensors (fst s) ! i" "snd s"]
  by (simp add: deinit_slot_def Let_def)

lemma deinit_slot_absent:
  "sensors (fst s) ! i = NULL \<Longrightarrow> i < length (sensors (fst s)) \<Longrightarrow> deinit_slot i s = s"
  by (cases s) (simp add: deinit_slot_def Let_def list_update_same_conv)

lemma deinit_sensors:
  assumes "length (sensors p) = AMD_SFH_MAX_SENSORS"
  shows "sensors (fst (amd_sfh_client_deinit p w)) = [NULL, NULL, NULL, NULL]"
proof -
  from assms have "length (sensors p) = 4"
    by (simp add: AMD_SFH_MAX_SENSORS_def)
  then obtain a b c d where "sensors p = [a, b, c, d]"
    using list4 by blast
  then show ?thesis
    by (simp add: deinit_fold deinit_slot_fst)
qed

lemma deinit_destroy_calls:
  assumes "length (sensors p) = AMD_SFH_MAX_SENSORS"
  shows "\<exists>evs. trace (snd (amd_sfh_client_deinit p w)) = trace w @ evs \<and>
           destroy_calls evs = filter (\<lambda>q. q \<noteq> NULL) (sensors p)"
proof -
  from assms have "length (sensors p) = 4"
    by (simp add: AMD_SFH_MAX_SENSORS_def)
  then obtain a b c d where abcd: "sensors p = [a, b, c, d]"
    using list4 by blast
  define s0 where "s0 = (p, w)"
  define s1 where "s1 = deinit_slot 0 s0"
  define s2 where "s2 = deinit_slot 1 s1"
  define s3 where "s3 = deinit_slot 2 s2"
  define s4 where "s4 = deinit_slot 3 s3"
  have S1: "sensors (fst s1) = [NULL, b, c, d]"
    by (simp add: s1_def s0_def deinit_slot_fst abcd)
  have S2: "sensors (fst s2) = [NULL, NULL, c, d]"
    by (simp add: s2_def deinit_slot_fst S1)
  have S3: "sensors (fst s3) = [NULL, NULL, NULL, d]"
    by (simp add: s3_def deinit_slot_fst S2)
  obtain e0 where e0: "trace (snd s1) = trace w @ e0"
      "destroy_calls e0 = (if a \<noteq> NULL then [a] else [])"
    using deinit_slot_extends [of 0 s0] by (auto simp: s1_def s0_def abcd)
  obtain e1 where e1: "trace (snd s2) = trace (snd s1) @ e1"
      "destroy_calls e1 = (if b \<noteq> NULL then [b] else [])"
    using deinit_slot_extends [of 1 s1] by (auto simp: s2_def S1)
  obtain e2 where e2: "trace (snd s3) = trace (snd s2) @ e2"
      "destroy_calls e2 = (if c \<noteq> NULL then [c] else [])"
    using deinit_slot_extends [of 2 s2] by (auto simp: s3_def S2)
  obtain e3 where e3: "trace (snd s4) = trace (snd s3) @ e3"
      "destroy_calls e3 = (if d \<noteq> NULL then [d] else [])"
    using deinit_slot_extends [of 3 s3] by (auto simp: s4_def S3)
  have "amd_sfh_client_deinit p w = s4"
    by (simp add: deinit_fold s4_def s3_def s2_def s1_def s0_def)
  then have "trace (snd (amd_sfh_client_deinit p w)) = trace w @ (e0 @ e1 @ e2 @ e3)"
    using e0(1) e1(1) e2(1) e3(1) by simp
  moreover have "destroy_calls (e0 @ e1 @ e2 @ e3) = filter (\<lambda>q. q \<noteq> NULL) (sensors p)"
    using e0(2) e1(2) e2(2) e3(2) by (simp add: abcd)
  ultimately show ?thesis by blast
qed

lemma deinit_empty:
  assumes "sensors p = [NULL, NULL, NULL, NULL]"
  shows "amd_sfh_client_deinit p w = (p, w)"
  using assms by (simp add: deinit_fold deinit_slot_absent)

lemma example_init_sensors:
  "sensors (fst (amd_sfh_client_init example_headers example_environment example_privdata
     empty_kernel)) = [Ptr 1, NULL, NULL, Ptr 4]"
proof -
  have len: "length (sensors example_privdata) = AMD_SFH_MAX_SENSORS"
    by (simp add: example_privdata_def AMD_SFH_MAX_SENSORS_def)
  show ?thesis
    by (subst init_sensors [OF len])
      (simp add: Let_def init_step_fst init_step_heap probe_heap_def creation_ok_def
        example_defs example_privdata_def)
qed

text \<open>
  C4. \<^verbatim>\<open>amd_sfh_client_deinit\<close> runs the body of its loop once for each index
  below \<^verbatim>\<open>AMD_SFH_MAX_SENSORS\<close>, in order; it calls
  \<^verbatim>\<open>hid_destroy_device\<close> once for each slot that is not \<^verbatim>\<open>NULL\<close>, in
  slot order, and for nothing else, and leaves every slot \<^verbatim>\<open>NULL\<close>. A second
  call changes neither the registry nor the world, so it destroys nothing.
\<close>

theorem deinit_clears_registry:
  assumes "length (sensors privdata) = AMD_SFH_MAX_SENSORS"
  shows "(let r = amd_sfh_client_deinit privdata w;
              r' = amd_sfh_client_deinit (fst r) (snd r)
          in r = fold deinit_slot [0..<AMD_SFH_MAX_SENSORS] (privdata, w) \<and>
             sensors (fst r) = replicate AMD_SFH_MAX_SENSORS NULL \<and>
             destroy_calls (events_since w (snd r)) =
               filter (\<lambda>p. p \<noteq> NULL) (sensors privdata) \<and>
             r' = r \<and>
             destroy_calls (events_since (snd r) (snd r')) = [])"
proof -
  have a: "amd_sfh_client_deinit privdata w
      = fold deinit_slot [0..<AMD_SFH_MAX_SENSORS] (privdata, w)"
    by (simp add: amd_sfh_client_deinit_def deinit_loop_fold)
  have b: "sensors (fst (amd_sfh_client_deinit privdata w)) = [NULL, NULL, NULL, NULL]"
    by (rule deinit_sensors [OF assms])
  have c: "destroy_calls (events_since w (snd (amd_sfh_client_deinit privdata w)))
      = filter (\<lambda>p. p \<noteq> NULL) (sensors privdata)"
    using deinit_destroy_calls [OF assms, of w] by (auto simp: events_since_append)
  have d: "amd_sfh_client_deinit (fst (amd_sfh_client_deinit privdata w))
      (snd (amd_sfh_client_deinit privdata w)) = amd_sfh_client_deinit privdata w"
    by (simp add: deinit_empty [OF b])
  have e: "replicate AMD_SFH_MAX_SENSORS NULL = [NULL, NULL, NULL, NULL]"
    by (simp add: AMD_SFH_MAX_SENSORS_def eval_nat_numeral)
  show ?thesis
    unfolding Let_def d using a b c e by (simp add: events_since_def)
qed


theorem deinit_clears_registry_witness:
  "length (sensors (fst (amd_sfh_client_init example_headers example_environment
     example_privdata empty_kernel))) = AMD_SFH_MAX_SENSORS \<and>
   sensors (fst (amd_sfh_client_deinit
     (fst (amd_sfh_client_init example_headers example_environment example_privdata empty_kernel))
     (snd (amd_sfh_client_init example_headers example_environment example_privdata empty_kernel))))
     = [NULL, NULL, NULL, NULL] \<and>
   destroy_calls (events_since
     (snd (amd_sfh_client_init example_headers example_environment example_privdata empty_kernel))
     (snd (amd_sfh_client_deinit
       (fst (amd_sfh_client_init example_headers example_environment example_privdata
          empty_kernel))
       (snd (amd_sfh_client_init example_headers example_environment example_privdata
          empty_kernel)))))
     = [Ptr 1, Ptr 4]"
proof -
  have len: "length (sensors (fst (amd_sfh_client_init example_headers example_environment
     example_privdata empty_kernel))) = AMD_SFH_MAX_SENSORS"
    by (simp add: example_init_sensors AMD_SFH_MAX_SENSORS_def)
  let ?ini = "amd_sfh_client_init example_headers example_environment example_privdata
     empty_kernel"
  let ?dei = "amd_sfh_client_deinit (fst ?ini) (snd ?ini)"
  note T = deinit_clears_registry [OF len, of "snd ?ini"]
  from T have a: "sensors (fst ?dei) = replicate AMD_SFH_MAX_SENSORS NULL"
    unfolding Let_def by blast
  from T have b: "destroy_calls (events_since (snd ?ini) (snd ?dei))
      = filter (\<lambda>p. p \<noteq> NULL) (sensors (fst ?ini))"
    unfolding Let_def by blast
  have c: "replicate AMD_SFH_MAX_SENSORS NULL = [NULL, NULL, NULL, NULL]"
    by (simp add: AMD_SFH_MAX_SENSORS_def eval_nat_numeral)
  show ?thesis
    using len a b c by (simp add: example_init_sensors)
qed

subsection \<open>Truncated names\<close>

lemma name_does_not_fit:
  assumes "name_size H \<le> length (amd_sfh_get_sensor_name k)"
  shows "strscpy [] (amd_sfh_get_sensor_name k) (name_size H) =
           (take (name_size H - 1) (amd_sfh_get_sensor_name k), - E2BIG)"
    and "int (name_size H)
           \<le> to_size_t (snd (strscpy [] (amd_sfh_get_sensor_name k) (name_size H)))"
proof -
  have short: "length (amd_sfh_get_sensor_name k) \<le> 20"
    by (rule sensor_name_short)
  then have "length (amd_sfh_get_sensor_name k) \<le> INT_MAX"
    by (simp add: INT_MAX_def)
  with assms show a: "strscpy [] (amd_sfh_get_sensor_name k) (name_size H) =
           (take (name_size H - 1) (amd_sfh_get_sensor_name k), - E2BIG)"
    by (rule strscpy_truncates)
  from assms short have "name_size H \<le> 20" by simp
  then show "int (name_size H)
           \<le> to_size_t (snd (strscpy [] (amd_sfh_get_sensor_name k) (name_size H)))"
    by (simp add: a to_size_t_def E2BIG_def)
qed

lemma phys_does_not_fit:
  assumes "phys_size H \<le> length AMD_SFH_PHY_DEV"
  shows "strscpy [] AMD_SFH_PHY_DEV (phys_size H) =
           (take (phys_size H - 1) AMD_SFH_PHY_DEV, - E2BIG)"
    and "int (phys_size H) \<le> to_size_t (snd (strscpy [] AMD_SFH_PHY_DEV (phys_size H)))"
proof -
  have short: "length AMD_SFH_PHY_DEV = 28"
    by (simp add: AMD_SFH_PHY_DEV_def)
  then have "length AMD_SFH_PHY_DEV \<le> INT_MAX"
    by (simp add: INT_MAX_def)
  with assms show a: "strscpy [] AMD_SFH_PHY_DEV (phys_size H) =
           (take (phys_size H - 1) AMD_SFH_PHY_DEV, - E2BIG)"
    by (rule strscpy_truncates)
  from assms short have "phys_size H \<le> 28" by simp
  then show "int (phys_size H) \<le> to_size_t (snd (strscpy [] AMD_SFH_PHY_DEV (phys_size H)))"
    by (simp add: a to_size_t_def E2BIG_def)
qed

lemma probe_warnings_events:
  assumes "hid_allocate_device_ok E k"
  shows "warnings (events_since w (snd (amd_sfh_hid_probe H E pci k w)))
           = warnings (probe_warnings H k (Ptr (Suc (top_addr (heap w)))))"
  using assms
  by (cases E k rule: creation_cases)
    (simp_all add: probe_success probe_data_fails probe_size_fails probe_buf_fails
      probe_add_fails)

text \<open>
  C7. Once the device is allocated: if the catalog name does not fit the name array
  together with its terminator, the probe stores the truncated copy and emits the warning
  ``Could not set HID device name''; likewise for the physical-location string and
  ``Could not set HID device location''. Neither truncation makes the probe fail: it
  returns a device exactly when the remaining steps succeed.
\<close>

theorem probe_truncation_not_fatal:
  assumes "hid_allocate_device_ok E k"
  shows "(let r = amd_sfh_hid_probe H E pci k w; evs = events_since w (snd r)
          in (name_size H \<le> length (amd_sfh_get_sensor_name k) \<longrightarrow>
                name_warning \<in> set (warnings evs) \<and>
                (fst r \<noteq> NULL \<longrightarrow>
                   device_name (snd r) (fst r) =
                     Some (take (name_size H - 1) (amd_sfh_get_sensor_name k)))) \<and>
             (phys_size H \<le> length AMD_SFH_PHY_DEV \<longrightarrow>
                phys_warning \<in> set (warnings evs) \<and>
                (fst r \<noteq> NULL \<longrightarrow>
                   device_phys (snd r) (fst r) =
                     Some (take (phys_size H - 1) AMD_SFH_PHY_DEV))) \<and>
             (fst r \<noteq> NULL) =
               (hid_data_kzalloc_ok E k \<and>
                0 \<le> get_descriptor_size E k AMD_SFH_INPUT_REPORT \<and>
                report_buf_kzalloc_ok E k \<and> hid_add_device_rc E k = 0))"
proof -
  let ?r = "amd_sfh_hid_probe H E pci k w"
  have w: "warnings (events_since w (snd ?r))
      = warnings (probe_warnings H k (Ptr (Suc (top_addr (heap w)))))"
    by (rule probe_warnings_events [OF assms])
  have n1: "name_warning \<in> set (warnings (events_since w (snd ?r)))"
    if "name_size H \<le> length (amd_sfh_get_sensor_name k)"
    using name_does_not_fit(2) [OF that] by (simp add: w probe_warnings_def name_warning_def)
  have n2: "device_name (snd ?r) (fst ?r)
      = Some (take (name_size H - 1) (amd_sfh_get_sensor_name k))"
    if "name_size H \<le> length (amd_sfh_get_sensor_name k)" "fst ?r \<noteq> NULL"
  proof -
    from that(2) have ok: "creation_ok E k" by (simp add: probe_success_iff)
    show ?thesis
      using probe_success_deref(1) [OF ok, of H pci w] name_does_not_fit(1) [OF that(1)]
      by (simp add: device_name_def probe_device_def)
  qed
  have p1: "phys_warning \<in> set (warnings (events_since w (snd ?r)))"
    if "phys_size H \<le> length AMD_SFH_PHY_DEV"
    using phys_does_not_fit(2) [OF that] by (simp add: w probe_warnings_def phys_warning_def)
  have p2: "device_phys (snd ?r) (fst ?r) = Some (take (phys_size H - 1) AMD_SFH_PHY_DEV)"
    if "phys_size H \<le> length AMD_SFH_PHY_DEV" "fst ?r \<noteq> NULL"
  proof -
    from that(2) have ok: "creation_ok E k" by (simp add: probe_success_iff)
    show ?thesis
      using probe_success_deref(1) [OF ok, of H pci w] phys_does_not_fit(1) [OF that(1)]
      by (simp add: device_phys_def probe_device_def)
  qed
  have s: "(fst ?r \<noteq> NULL) =
      (hid_data_kzalloc_ok E k \<and> 0 \<le> get_descriptor_size E k AMD_SFH_INPUT_REPORT \<and>
       report_buf_kzalloc_ok E k \<and> hid_add_device_rc E k = 0)"
    using assms by (simp add: probe_success_iff creation_ok_def)
  show ?thesis
    unfolding Let_def using n1 n2 p1 p2 s by blast
qed

theorem probe_truncation_not_fatal_witness:
  "hid_allocate_device_ok example_environment ACCEL_IDX \<and>
   name_size (example_headers\<lparr>name_size := 8, phys_size := 16\<rparr>)
     \<le> length (amd_sfh_get_sensor_name ACCEL_IDX) \<and>
   phys_size (example_headers\<lparr>name_size := 8, phys_size := 16\<rparr>) \<le> length AMD_SFH_PHY_DEV \<and>
   fst (amd_sfh_hid_probe (example_headers\<lparr>name_size := 8, phys_size := 16\<rparr>)
     example_environment 7 ACCEL_IDX empty_kernel) = Ptr 1 \<and>
   device_name (snd (amd_sfh_hid_probe (example_headers\<lparr>name_size := 8, phys_size := 16\<rparr>)
     example_environment 7 ACCEL_IDX empty_kernel)) (Ptr 1) = Some ''acceler'' \<and>
   device_phys (snd (amd_sfh_hid_probe (example_headers\<lparr>name_size := 8, phys_size := 16\<rparr>)
     example_environment 7 ACCEL_IDX empty_kernel)) (Ptr 1) = Some ''AMD Sensor Fusi'' \<and>
   warnings (events_since empty_kernel
     (snd (amd_sfh_hid_probe (example_headers\<lparr>name_size := 8, phys_size := 16\<rparr>)
       example_environment 7 ACCEL_IDX empty_kernel))) = [name_warning, phys_warning]"
proof -
  let ?H = "example_headers\<lparr>name_size := 8, phys_size := 16\<rparr>"
  let ?p = "amd_sfh_hid_probe ?H example_environment 7 ACCEL_IDX empty_kernel"
  have a: "hid_allocate_device_ok example_environment ACCEL_IDX"
    by (simp add: example_defs)
  have n: "name_size ?H \<le> length (amd_sfh_get_sensor_name ACCEL_IDX)"
    by (simp add: example_defs)
  have p: "phys_size ?H \<le> length AMD_SFH_PHY_DEV"
    by (simp add: example_defs AMD_SFH_PHY_DEV_def)
  have ok: "creation_ok example_environment ACCEL_IDX"
    by (simp add: creation_ok_def example_defs)
  have f: "fst ?p = Ptr 1"
    by (simp add: probe_fst ok empty_kernel_def)
  have w: "warnings (events_since empty_kernel (snd ?p)) = [name_warning, phys_warning]"
    by (subst probe_warnings_events [OF a])
      (simp add: probe_warnings_def name_warning_def phys_warning_def strscpy_def
        to_size_t_def E2BIG_def INT_MAX_def AMD_SFH_PHY_DEV_def example_defs)
  note T = probe_truncation_not_fatal [OF a, of ?H 7 empty_kernel]
  from T n f have dn: "device_name (snd ?p) (Ptr 1)
      = Some (take (name_size ?H - 1) (amd_sfh_get_sensor_name ACCEL_IDX))"
    unfolding Let_def by simp
  from T p f have dp: "device_phys (snd ?p) (Ptr 1)
      = Some (take (phys_size ?H - 1) AMD_SFH_PHY_DEV)"
    unfolding Let_def by simp
  have tn: "take (name_size ?H - 1) (amd_sfh_get_sensor_name ACCEL_IDX) = ''acceler''"
    by (simp add: example_defs)
  have tp: "take (phys_size ?H - 1) AMD_SFH_PHY_DEV = ''AMD Sensor Fusi''"
    by (simp add: example_defs AMD_SFH_PHY_DEV_def)
  show ?thesis
    using a n p f w dn dp tn tp by simp
qed

subsection \<open>A whole life of the registry\<close>

lemma top_addr_probe_heap [simp]: "top_addr (probe_heap H E pci k h) = top_addr h + 3"
  by (simp add: probe_heap_def)

text \<open>
  C9. When the mask holds exactly the accelerometer and the ambient light sensor and both
  probes succeed, init leaves devices in slots 0 and 3 (the accelerometer's and the
  ambient light sensor's) and \<^verbatim>\<open>NULL\<close> in slots 1 and 2; the deinit that follows
  leaves all four slots \<^verbatim>\<open>NULL\<close>, calls \<^verbatim>\<open>hid_destroy_device\<close> exactly
  twice, for the accelerometer first, unregisters exactly these two devices, uses no
  invalid pointer and leaves the heap as it was before init.
\<close>

theorem accel_als_scenario:
  assumes len: "length (sensors privdata) = AMD_SFH_MAX_SENSORS"
    and accel: "amd_sfh_get_sensor_mask E (priv_pci_dev privdata) AND ACCEL_MASK H \<noteq> 0"
    and gyro: "amd_sfh_get_sensor_mask E (priv_pci_dev privdata) AND GYRO_MASK H = 0"
    and magno: "amd_sfh_get_sensor_mask E (priv_pci_dev privdata) AND MAGNO_MASK H = 0"
    and als: "amd_sfh_get_sensor_mask E (priv_pci_dev privdata) AND ALS_MASK H \<noteq> 0"
    and accel_ok: "fst (amd_sfh_hid_probe H E (priv_pci_dev privdata) ACCEL_IDX w') \<noteq> NULL"
    and als_ok: "fst (amd_sfh_hid_probe H E (priv_pci_dev privdata) ALS_IDX w'') \<noteq> NULL"
  shows "(let t = top_addr (heap w);
              r = amd_sfh_client_init H E privdata w;
              r' = amd_sfh_client_deinit (fst r) (snd r);
              evs = events_since (snd r) (snd r')
          in sensors (fst r) = [Ptr (t + 1), NULL, NULL, Ptr (t + 4)] \<and>
             map_option data_sensor_idx (device_data (snd r) (Ptr (t + 1))) = Some ACCEL_IDX \<and>
             map_option data_sensor_idx (device_data (snd r) (Ptr (t + 4))) = Some ALS_IDX \<and>
             sensors (fst r') = [NULL, NULL, NULL, NULL] \<and>
             destroy_calls evs = [Ptr (t + 1), Ptr (t + 4)] \<and>
             unregistrations evs = [t + 1, t + 4] \<and>
             faults evs = [] \<and>
             heap (snd r') = heap w)"
proof -
  let ?pci = "priv_pci_dev privdata"
  let ?t = "top_addr (heap w)"
  let ?ini = "amd_sfh_client_init H E privdata w"
  let ?dei = "amd_sfh_client_deinit (fst ?ini) (snd ?ini)"
  have ok: "creation_ok E ACCEL_IDX" "creation_ok E ALS_IDX"
    using accel_ok als_ok by (simp_all add: probe_success_iff)
  have S: "sensors (fst ?ini) = [Ptr (Suc ?t), NULL, NULL, Ptr (?t + 4)]"
    using accel gyro magno als ok
    by (simp add: init_sensors [OF len] Let_def init_step_fst init_step_heap)
  have Hp: "heap (snd ?ini) =
      probe_heap H E ?pci ALS_IDX (probe_heap H E ?pci ACCEL_IDX (heap w))"
    using accel gyro magno als ok
    by (simp add: init_heap Let_def init_step_heap)
  have a: "map_of (heap (snd ?ini)) (Suc ?t) = Some (HID_DEVICE (probe_device H ACCEL_IDX (Suc ?t)))"
    by (simp add: Hp probe_heap_def)
  have d1: "map_option data_sensor_idx (device_data (snd ?ini) (Ptr (Suc ?t))) = Some ACCEL_IDX"
    by (simp add: device_data_def deref_hid_def deref_data_def Hp probe_heap_def
        probe_device_def probe_data_def)
  have d2: "map_option data_sensor_idx (device_data (snd ?ini) (Ptr (?t + 4))) = Some ALS_IDX"
    by (simp add: device_data_def deref_hid_def deref_data_def Hp probe_heap_def
        probe_device_def probe_data_def)
  have D: "?dei = ((fst ?ini)\<lparr>sensors := [NULL, NULL, NULL, NULL]\<rparr>,
      (snd ?ini)\<lparr>heap := heap w,
        trace := trace (snd ?ini) @
          [HID_DESTROY (Ptr (Suc ?t)), HID_DEL (Suc ?t), KFREE (?t + 3), KFREE (?t + 2),
           KFREE (Suc ?t),
           HID_DESTROY (Ptr (?t + 4)), HID_DEL (?t + 4), KFREE (?t + 6), KFREE (?t + 5),
           KFREE (?t + 4)]\<rparr>)"
    by (simp add: deinit_fold deinit_slot_def Let_def S hid_destroy_device_def deref_hid_def
        Hp probe_heap_def probe_device_def)
  show ?thesis
    unfolding Let_def D using S d1 d2 by (simp add: events_since_def)
qed


theorem accel_als_scenario_witness:
  "length (sensors example_privdata) = AMD_SFH_MAX_SENSORS \<and>
   amd_sfh_get_sensor_mask example_environment (priv_pci_dev example_privdata)
     AND ACCEL_MASK example_headers \<noteq> 0 \<and>
   amd_sfh_get_sensor_mask example_environment (priv_pci_dev example_privdata)
     AND GYRO_MASK example_headers = 0 \<and>
   amd_sfh_get_sensor_mask example_environment (priv_pci_dev example_privdata)
     AND MAGNO_MASK example_headers = 0 \<and>
   amd_sfh_get_sensor_mask example_environment (priv_pci_dev example_privdata)
     AND ALS_MASK example_headers \<noteq> 0 \<and>
   sensors (fst (amd_sfh_client_init example_headers example_environment example_privdata
     empty_kernel)) = [Ptr 1, NULL, NULL, Ptr 4] \<and>
   destroy_calls (events_since
     (snd (amd_sfh_client_init example_headers example_environment example_privdata empty_kernel))
     (snd (amd_sfh_client_deinit
       (fst (amd_sfh_client_init example_headers example_environment example_privdata
          empty_kernel))
       (snd (amd_sfh_client_init example_headers example_environment example_privdata
          empty_kernel)))))
     = [Ptr 1, Ptr 4]"
proof -
  have len: "length (sensors example_privdata) = AMD_SFH_MAX_SENSORS"
    by (simp add: example_privdata_def AMD_SFH_MAX_SENSORS_def)
  have m: "amd_sfh_get_sensor_mask example_environment (priv_pci_dev example_privdata)
       AND ACCEL_MASK example_headers \<noteq> 0"
    "amd_sfh_get_sensor_mask example_environment (priv_pci_dev example_privdata)
       AND GYRO_MASK example_headers = 0"
    "amd_sfh_get_sensor_mask example_environment (priv_pci_dev example_privdata)
       AND MAGNO_MASK example_headers = 0"
    "amd_sfh_get_sensor_mask example_environment (priv_pci_dev example_privdata)
       AND ALS_MASK example_headers \<noteq> 0"
    by (simp_all add: example_defs)
  have ok: "fst (amd_sfh_hid_probe example_headers example_environment
       (priv_pci_dev example_privdata) ACCEL_IDX empty_kernel) \<noteq> NULL"
    "fst (amd_sfh_hid_probe example_headers example_environment
       (priv_pci_dev example_privdata) ALS_IDX empty_kernel) \<noteq> NULL"
    by (simp_all add: probe_success_iff creation_ok_def example_defs)
  have t: "top_addr (heap empty_kernel) = 0"
    by (simp add: empty_kernel_def)
  note T = accel_als_scenario [OF len m ok, of empty_kernel]
  from T have a: "sensors (fst (amd_sfh_client_init example_headers example_environment
      example_privdata empty_kernel)) = [Ptr 1, NULL, NULL, Ptr 4]"
    unfolding Let_def t by simp
  from T have b: "destroy_calls (events_since
     (snd (amd_sfh_client_init example_headers example_environment example_privdata empty_kernel))
     (snd (amd_sfh_client_deinit
       (fst (amd_sfh_client_init example_headers example_environment example_privdata
          empty_kernel))
       (snd (amd_sfh_client_init example_headers example_environment example_privdata
          empty_kernel))))) = [Ptr 1, Ptr 4]"
    unfolding Let_def t by simp
  show ?thesis
    using len m a b by simp
qed

lemma live_below_top: "map_of h a = Some x \<Longrightarrow> a \<le> top_addr h"
  by (rule top_addr_ge [OF map_of_SomeD])

lemma is_registered_device_heap:
  "heap w = heap v \<Longrightarrow> is_registered_device w p = is_registered_device v p"
  by (simp add: is_registered_device_def deref_hid_def split: ptr.splits)

lemma registered_probe_heap:
  assumes "is_registered_device w p" and "heap v = probe_heap H E pci k (heap w)"
  shows "is_registered_device v p"
proof -
  from assms(1) obtain a d where p: "p = Ptr a" and a: "map_of (heap w) a = Some (HID_DEVICE d)"
    and d: "hid_added d"
    by (auto simp: is_registered_device_def deref_hid_def split: ptr.splits option.splits obj.splits)
  from a have "a \<le> top_addr (heap w)" by (rule live_below_top)
  then have "map_of (heap v) a = map_of (heap w) a"
    by (simp add: assms(2) probe_heap_def)
  with p a d show ?thesis
    by (simp add: is_registered_device_def deref_hid_def)
qed

lemma init_step_registered:
  "fst (init_step H E pci k w) = NULL \<or>
   is_registered_device (snd (init_step H E pci k w)) (fst (init_step H E pci k w))"
  by (simp add: init_step_fst is_registered_device_def deref_hid_def init_step_heap
      probe_heap_def probe_device_def)

lemma init_step_keeps_registered:
  assumes "p = NULL \<or> is_registered_device w p"
  shows "p = NULL \<or> is_registered_device (snd (init_step H E pci k w)) p"
proof (cases "amd_sfh_get_sensor_mask E pci AND sensor_mask_bit H k \<noteq> 0 \<and> creation_ok E k")
  case True
  then have "heap (snd (init_step H E pci k w)) = probe_heap H E pci k (heap w)"
    by (simp add: init_step_heap)
  with assms show ?thesis by (auto intro: registered_probe_heap)
next
  case False
  then have "heap (snd (init_step H E pci k w)) = heap w"
    by (auto simp: init_step_heap)
  with assms show ?thesis
    using is_registered_device_heap by blast
qed

lemma init_slots_registered:
  assumes len: "length (sensors p) = AMD_SFH_MAX_SENSORS" and i: "i < AMD_SFH_MAX_SENSORS"
  shows "sensors (fst (amd_sfh_client_init H E p w)) ! i = NULL \<or>
         is_registered_device (snd (amd_sfh_client_init H E p w))
           (sensors (fst (amd_sfh_client_init H E p w)) ! i)"
proof -
  let ?pci = "priv_pci_dev p"
  define r0 where "r0 = init_step H E ?pci ACCEL_IDX w"
  define r1 where "r1 = init_step H E ?pci GYRO_IDX (snd r0)"
  define r2 where "r2 = init_step H E ?pci MAG_IDX (snd r1)"
  define r3 where "r3 = init_step H E ?pci ALS_IDX (snd r2)"
  have S: "sensors (fst (amd_sfh_client_init H E p w)) = [fst r0, fst r1, fst r2, fst r3]"
    by (simp add: init_sensors [OF len] Let_def r0_def r1_def r2_def r3_def)
  have W: "snd (amd_sfh_client_init H E p w) = snd r3"
    by (simp add: init_steps Let_def r0_def r1_def r2_def r3_def)
  have a0: "fst r0 = NULL \<or> is_registered_device (snd r0) (fst r0)"
    unfolding r0_def by (rule init_step_registered)
  have a1: "fst r1 = NULL \<or> is_registered_device (snd r1) (fst r1)"
    unfolding r1_def by (rule init_step_registered)
  have a2: "fst r2 = NULL \<or> is_registered_device (snd r2) (fst r2)"
    unfolding r2_def by (rule init_step_registered)
  have a3: "fst r3 = NULL \<or> is_registered_device (snd r3) (fst r3)"
    unfolding r3_def by (rule init_step_registered)
  have b0: "fst r0 = NULL \<or> is_registered_device (snd r3) (fst r0)"
    unfolding r3_def r2_def r1_def by (intro init_step_keeps_registered a0)
  have b1: "fst r1 = NULL \<or> is_registered_device (snd r3) (fst r1)"
    unfolding r3_def r2_def by (intro init_step_keeps_registered a1)
  have b2: "fst r2 = NULL \<or> is_registered_device (snd r3) (fst r2)"
    unfolding r3_def by (intro init_step_keeps_registered a2)
  from i have "i = 0 \<or> i = 1 \<or> i = 2 \<or> i = 3"
    by (auto simp: AMD_SFH_MAX_SENSORS_def)
  with b0 b1 b2 a3 show ?thesis
    unfolding S W by auto
qed


lemma deinit_after_init:
  assumes len: "length (sensors p) = AMD_SFH_MAX_SENSORS"
  shows "faults (events_since (snd (amd_sfh_client_init H E p w))
           (snd (amd_sfh_client_deinit (fst (amd_sfh_client_init H E p w))
              (snd (amd_sfh_client_init H E p w))))) = [] \<and>
         heap (snd (amd_sfh_client_deinit (fst (amd_sfh_client_init H E p w))
              (snd (amd_sfh_client_init H E p w)))) = heap w"
proof -
  let ?pci = "priv_pci_dev p"
  let ?M = "amd_sfh_get_sensor_mask E ?pci"
  let ?ini = "amd_sfh_client_init H E p w"
  define c0 where "c0 \<longleftrightarrow> ?M AND ACCEL_MASK H \<noteq> 0 \<and> creation_ok E ACCEL_IDX"
  define c1 where "c1 \<longleftrightarrow> ?M AND GYRO_MASK H \<noteq> 0 \<and> creation_ok E GYRO_IDX"
  define c2 where "c2 \<longleftrightarrow> ?M AND MAGNO_MASK H \<noteq> 0 \<and> creation_ok E MAG_IDX"
  define c3 where "c3 \<longleftrightarrow> ?M AND ALS_MASK H \<noteq> 0 \<and> creation_ok E ALS_IDX"
  define h1 where "h1 = (if c0 then probe_heap H E ?pci ACCEL_IDX (heap w) else heap w)"
  define h2 where "h2 = (if c1 then probe_heap H E ?pci GYRO_IDX h1 else h1)"
  define h3 where "h3 = (if c2 then probe_heap H E ?pci MAG_IDX h2 else h2)"
  define h4 where "h4 = (if c3 then probe_heap H E ?pci ALS_IDX h3 else h3)"
  have S: "sensors (fst ?ini) =
      [if c0 then Ptr (Suc (top_addr (heap w))) else NULL,
       if c1 then Ptr (Suc (top_addr h1)) else NULL,
       if c2 then Ptr (Suc (top_addr h2)) else NULL,
       if c3 then Ptr (Suc (top_addr h3)) else NULL]"
    by (simp add: init_sensors [OF len] Let_def init_step_fst init_step_heap
        c0_def c1_def c2_def c3_def h1_def h2_def h3_def
        split del: if_split cong: if_cong)
  have Hp: "heap (snd ?ini) = h4"
    by (simp add: init_heap Let_def init_step_heap
        c0_def c1_def c2_def c3_def h1_def h2_def h3_def h4_def
        split del: if_split cong: if_cong)
  show ?thesis
    unfolding deinit_fold
    by (cases c0; cases c1; cases c2; cases c3;
        simp add: deinit_slot_def Let_def S Hp h1_def h2_def h3_def h4_def
          hid_destroy_device_def deref_hid_def probe_heap_def probe_device_def events_since_def)
qed


lemma init_length [simp]:
  "length (sensors (fst (amd_sfh_client_init H E p w))) = length (sensors p)"
  by (simp add: init_steps Let_def)

lemma not_registered_NULL [simp]: "\<not> is_registered_device w NULL"
  by (simp add: is_registered_device_def deref_hid_def)

lemma probe_registered:
  "(fst (amd_sfh_hid_probe H E pci k w) \<noteq> NULL) =
     is_registered_device (snd (amd_sfh_hid_probe H E pci k w))
       (fst (amd_sfh_hid_probe H E pci k w))"
proof (cases "creation_ok E k")
  case True
  then show ?thesis
    by (simp add: probe_success is_registered_device_def deref_hid_def probe_device_def)
next
  case False
  then show ?thesis by (simp add: probe_fst)
qed

text \<open>
  C10. \<^verbatim>\<open>hid_allocate_device\<close> reports failure by an error pointer, and then
  \<^verbatim>\<open>amd_sfh_hid_probe\<close> returns \<^verbatim>\<open>NULL\<close>: it never returns an error
  pointer, returns \<^verbatim>\<open>NULL\<close> exactly when a step fails, and otherwise a pointer to
  a registered device. So after init a slot is not \<^verbatim>\<open>NULL\<close> exactly when it
  points to a live, registered device, and the deinit that follows calls
  \<^verbatim>\<open>hid_destroy_device\<close> exactly for these slots and uses no invalid pointer.
\<close>

theorem probe_null_or_registered:
  assumes len: "length (sensors privdata) = AMD_SFH_MAX_SENSORS"
    and i: "i < AMD_SFH_MAX_SENSORS"
  shows "(let a = hid_allocate_device (hid_allocate_device_ok E k) w;
              r = amd_sfh_hid_probe H E pci k w;
              ini = amd_sfh_client_init H E privdata w;
              slot = sensors (fst ini) ! i;
              dei = amd_sfh_client_deinit (fst ini) (snd ini)
          in IS_ERR (fst a) = (\<not> hid_allocate_device_ok E k) \<and>
             (IS_ERR (fst a) \<longrightarrow> fst r = NULL) \<and>
             \<not> IS_ERR (fst r) \<and>
             (fst r = NULL) = (\<not> creation_ok E k) \<and>
             (fst r \<noteq> NULL) = is_registered_device (snd r) (fst r) \<and>
             (slot \<noteq> NULL) = is_registered_device (snd ini) slot \<and>
             destroy_calls (events_since (snd ini) (snd dei)) =
               filter (\<lambda>p. p \<noteq> NULL) (sensors (fst ini)) \<and>
             faults (events_since (snd ini) (snd dei)) = [])"
proof -
  let ?a = "hid_allocate_device (hid_allocate_device_ok E k) w"
  let ?p = "amd_sfh_hid_probe H E pci k w"
  let ?ini = "amd_sfh_client_init H E privdata w"
  let ?dei = "amd_sfh_client_deinit (fst ?ini) (snd ?ini)"
  have a: "IS_ERR (fst ?a) = (\<not> hid_allocate_device_ok E k)"
    by (simp add: hid_allocate_device_def kalloc_def IS_ERR_def Let_def)
  have b: "fst ?p = NULL" if "IS_ERR (fst ?a)"
    using that a by (simp add: probe_fst creation_ok_def)
  have c: "\<not> IS_ERR (fst ?p)"
    by (simp add: probe_fst IS_ERR_def)
  have d: "(fst ?p = NULL) = (\<not> creation_ok E k)"
    by (rule probe_null_iff)
  have e: "(fst ?p \<noteq> NULL) = is_registered_device (snd ?p) (fst ?p)"
    by (rule probe_registered)
  have f: "(sensors (fst ?ini) ! i \<noteq> NULL) = is_registered_device (snd ?ini) (sensors (fst ?ini) ! i)"
    using init_slots_registered [OF len i, of H E w] by auto
  have len': "length (sensors (fst ?ini)) = AMD_SFH_MAX_SENSORS"
    using len by simp
  have g: "destroy_calls (events_since (snd ?ini) (snd ?dei))
      = filter (\<lambda>p. p \<noteq> NULL) (sensors (fst ?ini))"
    using deinit_destroy_calls [OF len', of "snd ?ini"] by (auto simp: events_since_append)
  have h: "faults (events_since (snd ?ini) (snd ?dei)) = []"
    using deinit_after_init [OF len, of H E w] by blast
  show ?thesis
    unfolding Let_def using a b c d e f g h by blast
qed

theorem probe_null_or_registered_witness:
  "length (sensors example_privdata) = AMD_SFH_MAX_SENSORS \<and> 0 < AMD_SFH_MAX_SENSORS \<and>
   fst (hid_allocate_device (hid_allocate_device_ok gyro_alloc_fails GYRO_IDX) empty_kernel)
     = ERR_PTR (- 12) \<and>
   fst (amd_sfh_hid_probe example_headers gyro_alloc_fails 7 GYRO_IDX empty_kernel) = NULL \<and>
   sensors (fst (amd_sfh_client_init example_headers gyro_alloc_fails example_privdata
     empty_kernel)) = [Ptr 1, NULL, NULL, Ptr 4] \<and>
   is_registered_device
     (snd (amd_sfh_client_init example_headers gyro_alloc_fails example_privdata empty_kernel))
     (Ptr 1)"
proof -
  let ?ini = "amd_sfh_client_init example_headers gyro_alloc_fails example_privdata empty_kernel"
  have len: "length (sensors example_privdata) = AMD_SFH_MAX_SENSORS"
    by (simp add: example_privdata_def AMD_SFH_MAX_SENSORS_def)
  have i: "0 < AMD_SFH_MAX_SENSORS"
    by (simp add: AMD_SFH_MAX_SENSORS_def)
  have a: "fst (hid_allocate_device (hid_allocate_device_ok gyro_alloc_fails GYRO_IDX)
      empty_kernel) = ERR_PTR (- 12)"
    by (simp add: gyro_alloc_fails_def hid_allocate_device_def ENOMEM_def)
  have S: "sensors (fst ?ini) = [Ptr 1, NULL, NULL, Ptr 4]"
    by (subst init_sensors [OF len])
      (simp add: Let_def init_step_fst init_step_heap probe_heap_def creation_ok_def
        gyro_alloc_fails_def example_defs example_privdata_def)
  note T = probe_null_or_registered [OF len i, of gyro_alloc_fails GYRO_IDX empty_kernel
      example_headers 7]
  from T a have b: "fst (amd_sfh_hid_probe example_headers gyro_alloc_fails 7 GYRO_IDX
      empty_kernel) = NULL"
    unfolding Let_def by (simp add: IS_ERR_def)
  from T have "(sensors (fst ?ini) ! 0 \<noteq> NULL)
      = is_registered_device (snd ?ini) (sensors (fst ?ini) ! 0)"
    unfolding Let_def by blast
  then have c: "is_registered_device (snd ?ini) (Ptr 1)"
    by (simp add: S)
  show ?thesis
    using len i a b S c by simp
qed

subsection \<open>The state machine of a slot\<close>

lemma deinit_length [simp]:
  "length (sensors (fst (amd_sfh_client_deinit p w))) = length (sensors p)"
  by (simp add: deinit_fold deinit_slot_fst)

lemma reachable_invariant:
  assumes "reachable H s"
  shows "length (sensors (fst (snd s))) = AMD_SFH_MAX_SENSORS \<and>
         (fst s = ATTACHED \<longrightarrow> sensors (fst (snd s)) = replicate AMD_SFH_MAX_SENSORS NULL)"
  using assms
proof (induction rule: reachable.induct)
  case (attach p w)
  then show ?case by simp
next
  case (step s a s')
  from step.hyps(2) step.IH show ?case
    by (cases rule: lifecycle_step.cases) simp_all
qed

lemma replicate_slots: "replicate AMD_SFH_MAX_SENSORS NULL = [NULL, NULL, NULL, NULL]"
  by (simp add: AMD_SFH_MAX_SENSORS_def eval_nat_numeral)

lemma sensor_slot_less: "k \<in> set known_sensors \<Longrightarrow> sensor_slot k < AMD_SFH_MAX_SENSORS"
  by (auto simp: known_sensors_def AMD_SFH_MAX_SENSORS_def)

text \<open>
  C5. In every step of a run that attaches with an empty registry, runs init once and then
  deinit any number of times, each slot makes one of the three transitions absent to
  present, absent to absent, present to absent. In the init step the slot was absent, and
  it becomes present exactly when its bit is set and the creation succeeds; in a deinit
  step the slot ends absent, and if it was present its occupant was handed to
  \<^verbatim>\<open>hid_destroy_device\<close> in that step.
\<close>

theorem slot_state_machine:
  assumes "reachable H s" and "lifecycle_step H a s s'" and "k \<in> set known_sensors"
  shows "(let i = sensor_slot k;
              before = sensors (fst (snd s)) ! i;
              after = sensors (fst (snd s')) ! i;
              evs = events_since (snd (snd s)) (snd (snd s'))
          in slot_transition (slot_of before) (slot_of after) \<and>
             (case a of
                INIT E \<Rightarrow>
                  slot_of before = Absent \<and>
                  (slot_of after = Present) =
                    (amd_sfh_get_sensor_mask E (priv_pci_dev (fst (snd s)))
                       AND sensor_mask_bit H k \<noteq> 0 \<and> creation_ok E k)
              | DEINIT \<Rightarrow>
                  slot_of after = Absent \<and>
                  (slot_of before = Present \<longrightarrow> before \<in> set (destroy_calls evs))))"
  using assms(2)
proof (cases rule: lifecycle_step.cases)
  case (init E p w)
  from assms(1) have inv: "sensors p = replicate AMD_SFH_MAX_SENSORS NULL"
    using reachable_invariant init(2) by fastforce
  then have len: "length (sensors p) = AMD_SFH_MAX_SENSORS" by simp
  have before: "sensors p ! sensor_slot k = NULL"
    using assms(3) by (auto simp: inv replicate_slots known_sensors_def)
  have after: "(sensors (fst (amd_sfh_client_init H E p w)) ! sensor_slot k \<noteq> NULL) =
      (amd_sfh_get_sensor_mask E (priv_pci_dev p) AND sensor_mask_bit H k \<noteq> 0 \<and>
       creation_ok E k)"
    by (rule init_slot_present_iff [OF len assms(3)])
  show ?thesis
    using before after
    by (auto simp: init Let_def slot_of_def intro: slot_transition.intros)
next
  case (deinit p w)
  from assms(1) have len: "length (sensors p) = AMD_SFH_MAX_SENSORS"
    using reachable_invariant deinit(2) by fastforce
  have after: "sensors (fst (amd_sfh_client_deinit p w)) ! sensor_slot k = NULL"
    using assms(3) by (auto simp: deinit_sensors [OF len] known_sensors_def)
  have calls: "destroy_calls (events_since w (snd (amd_sfh_client_deinit p w)))
      = filter (\<lambda>q. q \<noteq> NULL) (sensors p)"
    using deinit_destroy_calls [OF len, of w] by (auto simp: events_since_append)
  have "sensors p ! sensor_slot k \<in> set (sensors p)"
    using sensor_slot_less [OF assms(3)] len by simp
  then have gone: "sensors p ! sensor_slot k \<noteq> NULL \<Longrightarrow>
      sensors p ! sensor_slot k \<in> set (destroy_calls (events_since w
        (snd (amd_sfh_client_deinit p w))))"
    by (simp add: calls)
  show ?thesis
    using after gone
    by (cases "sensors p ! sensor_slot k = NULL")
      (auto simp: deinit Let_def slot_of_def intro: slot_transition.intros)
qed


theorem slot_state_machine_witness:
  "reachable example_headers
     (INITIALISED, amd_sfh_client_init example_headers example_environment example_privdata
        empty_kernel) \<and>
   lifecycle_step example_headers DEINIT
     (INITIALISED, amd_sfh_client_init example_headers example_environment example_privdata
        empty_kernel)
     (INITIALISED, amd_sfh_client_deinit
        (fst (amd_sfh_client_init example_headers example_environment example_privdata
           empty_kernel))
        (snd (amd_sfh_client_init example_headers example_environment example_privdata
           empty_kernel))) \<and>
   ACCEL_IDX \<in> set known_sensors \<and>
   slot_of (sensors (fst (amd_sfh_client_init example_headers example_environment
     example_privdata empty_kernel)) ! sensor_slot ACCEL_IDX) = Present \<and>
   slot_of (sensors (fst (amd_sfh_client_deinit
        (fst (amd_sfh_client_init example_headers example_environment example_privdata
           empty_kernel))
        (snd (amd_sfh_client_init example_headers example_environment example_privdata
           empty_kernel)))) ! sensor_slot ACCEL_IDX) = Absent \<and>
   Ptr 1 \<in> set (destroy_calls (events_since
        (snd (amd_sfh_client_init example_headers example_environment example_privdata
           empty_kernel))
        (snd (amd_sfh_client_deinit
          (fst (amd_sfh_client_init example_headers example_environment example_privdata
             empty_kernel))
          (snd (amd_sfh_client_init example_headers example_environment example_privdata
             empty_kernel))))))"
proof -
  let ?ini = "amd_sfh_client_init example_headers example_environment example_privdata
    empty_kernel"
  let ?dei = "amd_sfh_client_deinit (fst ?ini) (snd ?ini)"
  have "sensors example_privdata = replicate AMD_SFH_MAX_SENSORS NULL"
    by (simp add: example_privdata_def replicate_slots)
  then have "reachable example_headers (ATTACHED, example_privdata, empty_kernel)"
    by (rule reachable.attach)
  then have r: "reachable example_headers (INITIALISED, ?ini)"
    by (rule reachable.step) (rule lifecycle_step.init)
  have "lifecycle_step example_headers DEINIT (INITIALISED, fst ?ini, snd ?ini)
      (INITIALISED, amd_sfh_client_deinit (fst ?ini) (snd ?ini))"
    by (rule lifecycle_step.deinit)
  then have s: "lifecycle_step example_headers DEINIT (INITIALISED, ?ini) (INITIALISED, ?dei)"
    by simp
  have k: "ACCEL_IDX \<in> set known_sensors"
    by (simp add: known_sensors_def)
  have b: "slot_of (sensors (fst ?ini) ! sensor_slot ACCEL_IDX) = Present"
    by (simp add: example_init_sensors slot_of_def)
  note T = slot_state_machine [OF r s k]
  from T have a: "slot_of (sensors (fst ?dei) ! sensor_slot ACCEL_IDX) = Absent"
    unfolding Let_def by simp
  from T b have "sensors (fst ?ini) ! sensor_slot ACCEL_IDX
      \<in> set (destroy_calls (events_since (snd ?ini) (snd ?dei)))"
    unfolding Let_def by simp
  then have c: "Ptr 1 \<in> set (destroy_calls (events_since (snd ?ini) (snd ?dei)))"
    by (simp add: example_init_sensors)
  show ?thesis
    using r s k b a c by simp
qed

end
